theory Spec2Isabelle
  imports Complex_Main "HOL-Library.Word"
begin

section \<open>Common data\<close>

text \<open>
  A Node \<open>Buffer\<close> is a sequence of bytes. A JavaScript \<open>number\<close> is idealised as a
  real: the properties below are about which field is read and which formula is applied,
  not about rounding.
\<close>

type_synonym byte = "8 word"
type_synonym buffer = "byte list"

text \<open>\<open>Buffer.subarray(start, end)\<close>: the bytes from \<open>start\<close> up to \<open>end\<close>, clamped to the buffer.\<close>

definition subarray :: "buffer \<Rightarrow> nat \<Rightarrow> nat \<Rightarrow> buffer" where
  "subarray b start end' = take (end' - start) (drop start b)"

section \<open>TilesetSourceFs\<close>

text \<open>
  \<open>src/tilesetData/TilesetSourceFs.ts\<close>. The only field of the class is
  \<open>fullInputName: string | undefined\<close>. The file system calls (\<open>fs.existsSync\<close>,
  \<open>fs.readFileSync\<close>, \<open>path.join\<close>, \<open>Iterables.overFiles\<close>, \<open>Paths.relativize\<close>) are
  taken as parameters.
\<close>

datatype tileset_error = TilesetError string | FileSystemError

record file_system =
  existsSync :: "string \<Rightarrow> bool"
  readFileSync :: "string \<Rightarrow> buffer option"
  path_join :: "string \<Rightarrow> string \<Rightarrow> string"
  overFiles :: "string \<Rightarrow> string list"
  relativize :: "string \<Rightarrow> string \<Rightarrow> string"

record tileset_source_fs =
  fullInputName :: "string option"

text \<open>
  The guards of the class are written \<open>if (this.fullInputName)\<close> and
  \<open>if (!this.fullInputName)\<close>: they test the truthiness of a \<open>string | undefined\<close>.
  \<open>undefined\<close> is falsy, and so is the empty string.
\<close>

definition truthy :: "string option \<Rightarrow> bool" where
  "truthy s = (case s of None \<Rightarrow> False | Some n \<Rightarrow> n \<noteq> [])"

definition TilesetSourceFs_new :: tileset_source_fs where
  "TilesetSourceFs_new = \<lparr>fullInputName = None\<rparr>"

definition TilesetSourceFs_open ::
  "tileset_source_fs \<Rightarrow> string \<Rightarrow> tileset_error + tileset_source_fs" where
  "TilesetSourceFs_open this name =
     (if truthy (fullInputName this) then Inl (TilesetError ''Source already opened'')
      else Inr (this\<lparr>fullInputName := Some name\<rparr>))"

definition TilesetSourceFs_getKeys ::
  "file_system \<Rightarrow> tileset_source_fs \<Rightarrow> tileset_error + string list" where
  "TilesetSourceFs_getKeys fs this =
     (if \<not> truthy (fullInputName this)
      then Inl (TilesetError ''Source is not opened. Call 'open' first.'')
      else (case fullInputName this of
              Some name \<Rightarrow> Inr (map (relativize fs name) (overFiles fs name))
            | None \<Rightarrow> Inl (TilesetError ''Source is not opened. Call 'open' first.'')))"

definition TilesetSourceFs_getValue ::
  "file_system \<Rightarrow> tileset_source_fs \<Rightarrow> string \<Rightarrow> tileset_error + buffer option" where
  "TilesetSourceFs_getValue fs this key =
     (if \<not> truthy (fullInputName this)
      then Inl (TilesetError ''Source is not opened. Call 'open' first.'')
      else (case fullInputName this of
              Some name \<Rightarrow>
                (let fullFileName = path_join fs name key in
                 if \<not> existsSync fs fullFileName then Inr None
                 else (case readFileSync fs fullFileName of
                         Some data \<Rightarrow> Inr (Some data)
                       | None \<Rightarrow> Inl FileSystemError))
            | None \<Rightarrow> Inl (TilesetError ''Source is not opened. Call 'open' first.'')))"

definition TilesetSourceFs_close ::
  "tileset_source_fs \<Rightarrow> tileset_error + tileset_source_fs" where
  "TilesetSourceFs_close this =
     (if \<not> truthy (fullInputName this)
      then Inl (TilesetError ''Source is not opened. Call 'open' first.'')
      else Inr (this\<lparr>fullInputName := None\<rparr>))"

section \<open>Point cloud tiles: data model\<close>

text \<open>
  \<open>src/contentProcessing/pointClouds/PntsPointClouds.ts\<close> and the declarations it uses.
  The legacy array types and component types are the enumerations of the field
  descriptors. The legacy component type \<open>"INT"\<close> is written \<open>SIGNED_INT\<close>.
\<close>

datatype legacy_type = SCALAR | VEC2 | VEC3 | VEC4

datatype legacy_component_type =
  BYTE | UNSIGNED_BYTE | SHORT | UNSIGNED_SHORT | SIGNED_INT | UNSIGNED_INT | FLOAT | DOUBLE

text \<open>
  The errors of a decode call: \<open>TileFormatError\<close> is thrown by the code itself;
  \<open>RangeError\<close> by a read past the end of a buffer; \<open>DracoError\<close> by the external
  decoder; \<open>AttributeAlreadyPresent\<close> is the failure of \<open>addAttribute\<close> on a name that
  the point cloud already has.
\<close>

datatype error =
  TileFormatError string | RangeError | DracoError | AttributeAlreadyPresent string

definition bind :: "error + 'a \<Rightarrow> ('a \<Rightarrow> error + 'b) \<Rightarrow> error + 'b" where
  "bind m f = (case m of Inl e \<Rightarrow> Inl e | Inr x \<Rightarrow> f x)"

text \<open>\<open>BinaryBodyOffset\<close>: \<open>{ byteOffset: number; componentType?: string }\<close>.\<close>

record binary_body_offset =
  byteOffset :: nat
  componentType :: "legacy_component_type option"

text \<open>A global property of the feature table is \<open>BinaryBodyOffset | number[]\<close>.\<close>

datatype number_array_property = NumberArray "real list" | BodyOffset binary_body_offset

text \<open>The \<open>3DTILES_draco_point_compression\<close> extension object of the feature table.\<close>

record draco_point_compression =
  properties :: "(string \<times> nat) list"
  ext_byteOffset :: nat
  ext_byteLength :: nat

record pnts_feature_table =
  POSITION :: "binary_body_offset option"
  POSITION_QUANTIZED :: "binary_body_offset option"
  RGBA :: "binary_body_offset option"
  RGB :: "binary_body_offset option"
  RGB565 :: "binary_body_offset option"
  NORMAL :: "binary_body_offset option"
  NORMAL_OCT16P :: "binary_body_offset option"
  BATCH_ID :: "binary_body_offset option"
  POINTS_LENGTH :: nat
  RTC_CENTER :: "number_array_property option"
  QUANTIZED_VOLUME_OFFSET :: "number_array_property option"
  QUANTIZED_VOLUME_SCALE :: "number_array_property option"
  CONSTANT_RGBA :: "number_array_property option"
  BATCH_LENGTH :: "nat option"
  extensions :: "(string \<rightharpoonup> draco_point_compression) option"

text \<open>
  A property of the batch table is a reference into the binary body
  (\<open>{ byteOffset, componentType, type }\<close>) or an inline JSON value. The batch table's own
  \<open>3DTILES_draco_point_compression\<close> extension lists property names with their Draco
  attribute ids; the order of the list is the key order of the object.
\<close>

datatype batch_table_property =
  BinaryBodyReference nat legacy_component_type legacy_type | JsonValue

record batch_table =
  bt_properties :: "string \<rightharpoonup> batch_table_property"
  bt_extensions :: "(string \<rightharpoonup> (string \<times> nat) list) option"

text \<open>
  \<open>DracoDecoderResult\<close>: property name to \<open>{ attributeData, attributeInfo: { byteOffset,
  componentDatatype } }\<close>.
\<close>

record draco_attribute =
  attributeData :: buffer
  attributeByteOffset :: nat
  componentDatatype :: legacy_component_type

type_synonym draco_decoder_result = "string \<rightharpoonup> draco_attribute"

text \<open>
  An \<open>Iterable\<close> is lazy: creating it reads nothing. It is the call that created it,
  \<open>TileTableData.createNumericArrayIterable\<close> or \<open>createNumericScalarIterable\<close> with
  (legacy type, legacy component type, binary, byte offset, number of points), or
  \<open>Iterables.map\<close> of an iterable with a function. An element is a list of numbers; a
  scalar element is a list of one number.
\<close>

datatype iterable =
  NumericArrayIterable legacy_type legacy_component_type buffer nat nat
| NumericScalarIterable legacy_type legacy_component_type buffer nat nat
| IterablesMap iterable "real list \<Rightarrow> real list"

text \<open>
  What the code calls and is not among the sources, as parameters: the Draco decoder
  (\<open>None\<close>: it rejects the input), the readers of \<open>TileTableData\<close> (\<open>None\<close>: a read past
  the end of the buffer), \<open>AttributeCompression.octDecode\<close>, and the pluggable colour
  transfer functions of \<open>Colors\<close>.
\<close>

record externals =
  decodePointCloud :: "(string \<rightharpoonup> nat) \<Rightarrow> buffer \<Rightarrow> draco_decoder_result option"
  readNumberArray :: "buffer \<Rightarrow> nat \<Rightarrow> nat \<Rightarrow> string \<Rightarrow> real list option"
  numericArrayValues ::
    "legacy_type \<Rightarrow> legacy_component_type \<Rightarrow> buffer \<Rightarrow> nat \<Rightarrow> nat \<Rightarrow> real list list option"
  numericScalarValues ::
    "legacy_type \<Rightarrow> legacy_component_type \<Rightarrow> buffer \<Rightarrow> nat \<Rightarrow> nat \<Rightarrow> real list list option"
  octDecode :: "real list \<Rightarrow> real list"
  standardToLinear :: "real \<Rightarrow> real"
  standardRGBAToNormalizedLinearRGBA :: "real list \<Rightarrow> real list"
  decodeRGB565 :: "real list \<Rightarrow> real list"

text \<open>Iterating an iterable to its end: the elements, or the range error of a read.\<close>

fun toList :: "externals \<Rightarrow> iterable \<Rightarrow> error + real list list" where
  "toList ext (NumericArrayIterable t c b off n) =
     (case numericArrayValues ext t c b off n of None \<Rightarrow> Inl RangeError | Some xs \<Rightarrow> Inr xs)"
| "toList ext (NumericScalarIterable t c b off n) =
     (case numericScalarValues ext t c b off n of None \<Rightarrow> Inl RangeError | Some xs \<Rightarrow> Inr xs)"
| "toList ext (IterablesMap it f) =
     (case toList ext it of Inl e \<Rightarrow> Inl e | Inr xs \<Rightarrow> Inr (map f xs))"

subsection \<open>TileTableData, BatchTables and Colors\<close>

text \<open>
  Modelled from the spec: \<open>TileTableData.convertLegacyComponentTypeToComponentType\<close> and
  \<open>TileTableData.convertLegacyTypeToType\<close> are not among the sources. They are the two
  fixed lookup tables of section 4.1 (legacy component-datatype name to canonical
  numeric-type name, legacy array-type to canonical element-type name).
\<close>

fun convertLegacyComponentTypeToComponentType :: "legacy_component_type \<Rightarrow> string" where
  "convertLegacyComponentTypeToComponentType BYTE = ''INT8''"
| "convertLegacyComponentTypeToComponentType UNSIGNED_BYTE = ''UINT8''"
| "convertLegacyComponentTypeToComponentType SHORT = ''INT16''"
| "convertLegacyComponentTypeToComponentType UNSIGNED_SHORT = ''UINT16''"
| "convertLegacyComponentTypeToComponentType SIGNED_INT = ''INT32''"
| "convertLegacyComponentTypeToComponentType UNSIGNED_INT = ''UINT32''"
| "convertLegacyComponentTypeToComponentType FLOAT = ''FLOAT32''"
| "convertLegacyComponentTypeToComponentType DOUBLE = ''FLOAT64''"

fun convertLegacyTypeToType :: "legacy_type \<Rightarrow> string" where
  "convertLegacyTypeToType SCALAR = ''SCALAR''"
| "convertLegacyTypeToType VEC2 = ''VEC2''"
| "convertLegacyTypeToType VEC3 = ''VEC3''"
| "convertLegacyTypeToType VEC4 = ''VEC4''"

text \<open>
  Modelled from the spec: \<open>TileTableData.obtainNumberArray\<close> and
  \<open>TileTableData.obtainRtcCenter\<close> are not among the sources. A property that is a
  \<open>number[]\<close> is returned as it is; a \<open>BinaryBodyOffset\<close> is read from the binary
  (\<open>length\<close> numbers of the component type at the byte offset), with a range error when
  the read passes the end of the buffer. The RTC center is three floats.
\<close>

definition obtainNumberArray ::
  "externals \<Rightarrow> buffer \<Rightarrow> number_array_property \<Rightarrow> nat \<Rightarrow> string \<Rightarrow> error + real list" where
  "obtainNumberArray ext binary property len componentTypeName =
     (case property of
        NumberArray xs \<Rightarrow> Inr xs
      | BodyOffset b \<Rightarrow>
          (case readNumberArray ext binary (byteOffset b) len componentTypeName of
             None \<Rightarrow> Inl RangeError
           | Some xs \<Rightarrow> Inr xs))"

definition obtainRtcCenter ::
  "externals \<Rightarrow> number_array_property \<Rightarrow> buffer \<Rightarrow> error + real list" where
  "obtainRtcCenter ext rtcCenter binary = obtainNumberArray ext binary rtcCenter 3 ''FLOAT32''"

text \<open>
  Modelled from the spec: \<open>BatchTables.obtainDracoProperties\<close> and
  \<open>BatchTables.obtainDracoPropertyNames\<close> are not among the sources. They give the
  properties listed in the mesh-compression extension of the side table, and their names
  (none when the extension is absent).
\<close>

definition obtainDracoProperties :: "batch_table \<Rightarrow> (string \<times> nat) list" where
  "obtainDracoProperties batchTable =
     (case bt_extensions batchTable of
        None \<Rightarrow> []
      | Some exts \<Rightarrow>
          (case exts ''3DTILES_draco_point_compression'' of None \<Rightarrow> [] | Some ps \<Rightarrow> ps))"

definition obtainDracoPropertyNames :: "batch_table \<Rightarrow> string list" where
  "obtainDracoPropertyNames batchTable = map fst (obtainDracoProperties batchTable)"

text \<open>
  Modelled from the spec: \<open>Colors\<close> is not among the sources. Section 4.3b: the
  gamma-to-linear transfer is a pluggable function, applied to each colour component;
  RGB to RGBA sets alpha to 1.0; RGB565 is unpacked to standard RGB first. The conversion
  of a standard RGBA colour is the parameter \<open>standardRGBAToNormalizedLinearRGBA\<close>.
\<close>

definition standardRGBToNormalizedLinearRGBA :: "externals \<Rightarrow> real list \<Rightarrow> real list" where
  "standardRGBToNormalizedLinearRGBA ext input = map (standardToLinear ext) (take 3 input) @ [1]"

definition standardRGB565ToNormalizedLinearRGBA :: "externals \<Rightarrow> real list \<Rightarrow> real list" where
  "standardRGB565ToNormalizedLinearRGBA ext input =
     standardRGBToNormalizedLinearRGBA ext (decodeRGB565 ext input)"

subsection \<open>DefaultPointCloud\<close>

text \<open>
  Modelled from the spec: \<open>DefaultPointCloud\<close> is not among the sources. Section 3 and
  section 4.2: the point cloud holds a mapping from attribute name to a sequence tagged
  with an element type and a component type, and two optional slots, the global position
  and the global colour. The slot setters assign; the positions, normals and colours are
  the attributes \<open>POSITION\<close>, \<open>NORMAL\<close> and \<open>COLOR_0\<close> (the names under which \<open>create\<close>
  looks them up with \<open>getAttributeValues\<close>), of type \<open>VEC3\<close>, \<open>VEC3\<close> and \<open>VEC4\<close> of floats.
  \<open>addAttribute\<close> fails if the name is already present.
\<close>

record point_attribute =
  attributeType :: string
  attributeComponentType :: string
  attributeValues :: iterable

record default_point_cloud =
  attributes :: "string \<rightharpoonup> point_attribute"
  globalPosition :: "real list option"
  globalColor :: "real list option"

definition DefaultPointCloud_new :: default_point_cloud where
  "DefaultPointCloud_new = \<lparr>attributes = Map.empty, globalPosition = None, globalColor = None\<rparr>"

definition getAttributeValues :: "default_point_cloud \<Rightarrow> string \<Rightarrow> iterable option" where
  "getAttributeValues pointCloud name = map_option attributeValues (attributes pointCloud name)"

definition setAttribute ::
  "default_point_cloud \<Rightarrow> string \<Rightarrow> string \<Rightarrow> string \<Rightarrow> iterable \<Rightarrow> default_point_cloud" where
  "setAttribute pointCloud name type' componentType' values =
     pointCloud\<lparr>attributes := (attributes pointCloud)(name \<mapsto>
       \<lparr>attributeType = type', attributeComponentType = componentType',
        attributeValues = values\<rparr>)\<rparr>"

definition setPositions :: "default_point_cloud \<Rightarrow> iterable \<Rightarrow> default_point_cloud" where
  "setPositions pointCloud positions =
     setAttribute pointCloud ''POSITION'' ''VEC3'' ''FLOAT32'' positions"

definition setNormals :: "default_point_cloud \<Rightarrow> iterable \<Rightarrow> default_point_cloud" where
  "setNormals pointCloud normals = setAttribute pointCloud ''NORMAL'' ''VEC3'' ''FLOAT32'' normals"

definition setNormalizedLinearColors ::
  "default_point_cloud \<Rightarrow> iterable \<Rightarrow> default_point_cloud" where
  "setNormalizedLinearColors pointCloud colors =
     setAttribute pointCloud ''COLOR_0'' ''VEC4'' ''FLOAT32'' colors"

definition setNormalizedLinearGlobalColor ::
  "default_point_cloud \<Rightarrow> real list option \<Rightarrow> default_point_cloud" where
  "setNormalizedLinearGlobalColor pointCloud color = pointCloud\<lparr>globalColor := color\<rparr>"

definition setGlobalPosition ::
  "default_point_cloud \<Rightarrow> real list option \<Rightarrow> default_point_cloud" where
  "setGlobalPosition pointCloud position = pointCloud\<lparr>globalPosition := position\<rparr>"

definition addAttribute ::
  "default_point_cloud \<Rightarrow> string \<Rightarrow> string \<Rightarrow> string \<Rightarrow> iterable
   \<Rightarrow> error + default_point_cloud" where
  "addAttribute pointCloud name type' componentType' values =
     (if attributes pointCloud name \<noteq> None then Inl (AttributeAlreadyPresent name)
      else Inr (setAttribute pointCloud name type' componentType' values))"

section \<open>PntsPointClouds\<close>

subsection \<open>The readers of one field (lines 717 to 933)\<close>

definition createPositionsInternal :: "buffer \<Rightarrow> nat \<Rightarrow> nat \<Rightarrow> iterable" where
  "createPositionsInternal binary byteOffset' numPoints =
     NumericArrayIterable VEC3 FLOAT binary byteOffset' numPoints"

definition createQuantizedPositionsInternal :: "buffer \<Rightarrow> nat \<Rightarrow> nat \<Rightarrow> iterable" where
  "createQuantizedPositionsInternal binary byteOffset' numPoints =
     NumericArrayIterable VEC3 UNSIGNED_SHORT binary byteOffset' numPoints"

definition createNormalsInternal :: "buffer \<Rightarrow> nat \<Rightarrow> nat \<Rightarrow> iterable" where
  "createNormalsInternal binary byteOffset' numPoints =
     NumericArrayIterable VEC3 FLOAT binary byteOffset' numPoints"

definition createOctEncodedNormalsInternal :: "buffer \<Rightarrow> nat \<Rightarrow> nat \<Rightarrow> iterable" where
  "createOctEncodedNormalsInternal binary byteOffset' numPoints =
     NumericArrayIterable VEC2 UNSIGNED_BYTE binary byteOffset' numPoints"

definition createColorsStandardRGBInternal :: "buffer \<Rightarrow> nat \<Rightarrow> nat \<Rightarrow> iterable" where
  "createColorsStandardRGBInternal binary byteOffset' numPoints =
     NumericArrayIterable VEC3 UNSIGNED_BYTE binary byteOffset' numPoints"

definition createColorsStandardRGBAInternal :: "buffer \<Rightarrow> nat \<Rightarrow> nat \<Rightarrow> iterable" where
  "createColorsStandardRGBAInternal binary byteOffset' numPoints =
     NumericArrayIterable VEC4 UNSIGNED_BYTE binary byteOffset' numPoints"

definition createColorsStandardRGB656Internal :: "buffer \<Rightarrow> nat \<Rightarrow> nat \<Rightarrow> iterable" where
  "createColorsStandardRGB656Internal binary byteOffset' numPoints =
     NumericScalarIterable SCALAR UNSIGNED_SHORT binary byteOffset' numPoints"

definition createBatchIdsInternal ::
  "buffer \<Rightarrow> nat \<Rightarrow> legacy_component_type \<Rightarrow> nat \<Rightarrow> iterable" where
  "createBatchIdsInternal binary byteOffset' legacyComponentType numPoints =
     NumericScalarIterable SCALAR legacyComponentType binary byteOffset' numPoints"

text \<open>
  \<open>createDequantization\<close> returns a function of a point. An index past the end of a
  JavaScript array gives \<open>undefined\<close>; \<open>xs ! i\<close> is unspecified there, and every statement
  below about a value names the three components of the arrays it reads.
\<close>

definition createDequantization :: "real list \<Rightarrow> real list \<Rightarrow> (real list \<Rightarrow> real list)" where
  "createDequantization volumeOffset volumeScale =
     (let scaleX = volumeScale ! 0 / 65535;
          scaleY = volumeScale ! 1 / 65535;
          scaleZ = volumeScale ! 2 / 65535;
          offsetX = volumeOffset ! 0;
          offsetY = volumeOffset ! 1;
          offsetZ = volumeOffset ! 2
      in (\<lambda>input. [input ! 0 * scaleX + offsetX,
                    input ! 1 * scaleY + offsetY,
                    input ! 2 * scaleZ + offsetZ]))"

subsection \<open>The decoders of one semantic (lines 210 to 241 and 420 to 707)\<close>

record quantization =
  offset :: "real list"
  scale :: "real list"

definition obtainQuantizationOffsetScale ::
  "externals \<Rightarrow> pnts_feature_table \<Rightarrow> buffer \<Rightarrow> error + quantization option" where
  "obtainQuantizationOffsetScale ext featureTable featureTableBinary =
     (case QUANTIZED_VOLUME_OFFSET featureTable of
        None \<Rightarrow> Inr None
      | Some qvo \<Rightarrow>
          (case QUANTIZED_VOLUME_SCALE featureTable of
             None \<Rightarrow> Inr None
           | Some qvs \<Rightarrow>
               bind (obtainNumberArray ext featureTableBinary qvo 3 ''FLOAT32'') (\<lambda>volumeOffset.
               bind (obtainNumberArray ext featureTableBinary qvs 3 ''FLOAT32'') (\<lambda>volumeScale.
               Inr (Some \<lparr>offset = volumeOffset, scale = volumeScale\<rparr>)))))"

definition createBatchIds :: "pnts_feature_table \<Rightarrow> buffer \<Rightarrow> error + iterable option" where
  "createBatchIds featureTable binary =
     (case BATCH_ID featureTable of
        None \<Rightarrow> Inr None
      | Some batchId \<Rightarrow>
          (case BATCH_LENGTH featureTable of
             None \<Rightarrow> Inl (TileFormatError ''Found BATCH_ID but no BATCH_LENGTH'')
           | Some batchLength \<Rightarrow>
               (let numPoints = POINTS_LENGTH featureTable;
                    legacyComponentType =
                      (case componentType batchId of None \<Rightarrow> UNSIGNED_SHORT | Some c \<Rightarrow> c)
                in Inr (Some (createBatchIdsInternal binary (byteOffset batchId)
                                legacyComponentType numPoints)))))"

definition obtainBatchIdComponentType :: "pnts_feature_table \<Rightarrow> string option" where
  "obtainBatchIdComponentType featureTable =
     (case BATCH_ID featureTable of
        None \<Rightarrow> None
      | Some batchId \<Rightarrow>
          (let legacyComponentType =
                 (case componentType batchId of None \<Rightarrow> UNSIGNED_SHORT | Some c \<Rightarrow> c)
           in Some (convertLegacyComponentTypeToComponentType legacyComponentType)))"

definition createPositions ::
  "externals \<Rightarrow> pnts_feature_table \<Rightarrow> buffer \<Rightarrow> error + iterable" where
  "createPositions ext featureTable binary =
     (let numPoints = POINTS_LENGTH featureTable in
      case POSITION featureTable of
        Some position \<Rightarrow> Inr (createPositionsInternal binary (byteOffset position) numPoints)
      | None \<Rightarrow>
          (case POSITION_QUANTIZED featureTable of
             Some positionQuantized \<Rightarrow>
               bind (obtainQuantizationOffsetScale ext featureTable binary) (\<lambda>quantization.
                 case quantization of
                   None \<Rightarrow> Inl (TileFormatError
                     (''The feature table contains POSITION_QUANTIZED, but not '' @
                      ''QUANTIZED_VOLUME_OFFSET and QUANTIZED_VOLUME_OFFSET''))
                 | Some q \<Rightarrow>
                     (let quantizedPositions = createQuantizedPositionsInternal binary
                            (byteOffset positionQuantized) numPoints;
                          offset' = [0, 0, 0];
                          dequantization = createDequantization offset' (scale q)
                      in Inr (IterablesMap quantizedPositions dequantization)))
           | None \<Rightarrow> Inl (TileFormatError
               ''The feature table contains neither POSITION nor POSITION_QUANTIZED'')))"

definition obtainGlobalPosition ::
  "externals \<Rightarrow> pnts_feature_table \<Rightarrow> buffer \<Rightarrow> error + real list option" where
  "obtainGlobalPosition ext featureTable featureTableBinary =
     bind (case RTC_CENTER featureTable of
             None \<Rightarrow> Inr None
           | Some rtc \<Rightarrow>
               bind (obtainRtcCenter ext rtc featureTableBinary) (\<lambda>rtcCenter.
               Inr (Some [rtcCenter ! 0, rtcCenter ! 2, - (rtcCenter ! 1)])))
       (\<lambda>globalPosition0.
     bind (obtainQuantizationOffsetScale ext featureTable featureTableBinary) (\<lambda>quantization.
       case quantization of
         None \<Rightarrow> Inr globalPosition0
       | Some q \<Rightarrow>
           (let globalPosition1 =
                  (case globalPosition0 of None \<Rightarrow> [0, 0, 0] | Some g \<Rightarrow> g)
            in Inr (Some [globalPosition1 ! 0 + offset q ! 0,
                          globalPosition1 ! 1 + offset q ! 2,
                          globalPosition1 ! 2 + - (offset q ! 1)]))))"

definition createNormals :: "externals \<Rightarrow> pnts_feature_table \<Rightarrow> buffer \<Rightarrow> iterable option" where
  "createNormals ext featureTable binary =
     (let numPoints = POINTS_LENGTH featureTable in
      case NORMAL featureTable of
        Some normal \<Rightarrow> Some (createNormalsInternal binary (byteOffset normal) numPoints)
      | None \<Rightarrow>
          (case NORMAL_OCT16P featureTable of
             Some normalOct \<Rightarrow>
               Some (IterablesMap
                       (createOctEncodedNormalsInternal binary (byteOffset normalOct) numPoints)
                       (octDecode ext))
           | None \<Rightarrow> None))"

definition createNormalizedLinearColors ::
  "externals \<Rightarrow> pnts_feature_table \<Rightarrow> buffer \<Rightarrow> iterable option" where
  "createNormalizedLinearColors ext featureTable binary =
     (let numPoints = POINTS_LENGTH featureTable in
      case RGBA featureTable of
        Some rgba \<Rightarrow>
          Some (IterablesMap (createColorsStandardRGBAInternal binary (byteOffset rgba) numPoints)
                  (standardRGBAToNormalizedLinearRGBA ext))
      | None \<Rightarrow>
          (case RGB featureTable of
             Some rgb \<Rightarrow>
               Some (IterablesMap
                       (createColorsStandardRGBInternal binary (byteOffset rgb) numPoints)
                       (standardRGBToNormalizedLinearRGBA ext))
           | None \<Rightarrow>
               (case RGB565 featureTable of
                  Some rgb565 \<Rightarrow>
                    Some (IterablesMap
                            (createColorsStandardRGB656Internal binary (byteOffset rgb565)
                               numPoints)
                            (standardRGB565ToNormalizedLinearRGBA ext))
                | None \<Rightarrow> None)))"

definition createGlobalNormalizedLinearColor ::
  "externals \<Rightarrow> pnts_feature_table \<Rightarrow> buffer \<Rightarrow> error + real list option" where
  "createGlobalNormalizedLinearColor ext featureTable binary =
     (case CONSTANT_RGBA featureTable of
        None \<Rightarrow> Inr None
      | Some c \<Rightarrow>
          bind (obtainNumberArray ext binary c 4 ''UNSIGNED_BYTE'') (\<lambda>constantRGBA.
            (let normalizedLinearRGBA = standardRGBAToNormalizedLinearRGBA ext constantRGBA
             in Inr (Some [normalizedLinearRGBA ! 0, normalizedLinearRGBA ! 1,
                           normalizedLinearRGBA ! 2, normalizedLinearRGBA ! 3]))))"

subsection \<open>The Draco-decoded attributes (lines 255 to 410)\<close>

text \<open>
  \<open>Object.assign\<close> of the two property lists: a later entry replaces an earlier one of
  the same name.
\<close>

definition obtainDracoDecodedAttributes ::
  "externals \<Rightarrow> pnts_feature_table \<Rightarrow> buffer \<Rightarrow> batch_table
   \<Rightarrow> error + draco_decoder_result option" where
  "obtainDracoDecodedAttributes ext featureTable featureTableBinary batchTable =
     (case extensions featureTable of
        None \<Rightarrow> Inr None
      | Some exts \<Rightarrow>
          (case exts ''3DTILES_draco_point_compression'' of
             None \<Rightarrow> Inr None
           | Some featureTableExtension \<Rightarrow>
               (let allProperties = map_of (properties featureTableExtension) ++
                                    map_of (obtainDracoProperties batchTable);
                    arrayStart = ext_byteOffset featureTableExtension;
                    arrayEnd = arrayStart + ext_byteLength featureTableExtension;
                    buffer = subarray featureTableBinary arrayStart arrayEnd
                in case decodePointCloud ext allProperties buffer of
                     None \<Rightarrow> Inl DracoError
                   | Some decoded \<Rightarrow> Inr (Some decoded))))"

text \<open>
  \<open>assignDracoDecodedAttributes\<close> in the order of its statements: positions, normals,
  colours from RGB, colours from RGBA, batch ids, and the loop over the Draco property
  names of the batch table.
\<close>

definition assignDracoPositions ::
  "default_point_cloud \<Rightarrow> nat \<Rightarrow> draco_decoder_result \<Rightarrow> default_point_cloud" where
  "assignDracoPositions pointCloud numPoints dracoDecoderResult =
     (case dracoDecoderResult ''POSITION'' of
        None \<Rightarrow> pointCloud
      | Some dracoPositions \<Rightarrow>
          setPositions pointCloud
            (createPositionsInternal (attributeData dracoPositions)
               (attributeByteOffset dracoPositions) numPoints))"

definition assignDracoNormals ::
  "default_point_cloud \<Rightarrow> nat \<Rightarrow> draco_decoder_result \<Rightarrow> default_point_cloud" where
  "assignDracoNormals pointCloud numPoints dracoDecoderResult =
     (case dracoDecoderResult ''NORMAL'' of
        None \<Rightarrow> pointCloud
      | Some dracoNormals \<Rightarrow>
          setNormals pointCloud
            (createNormalsInternal (attributeData dracoNormals)
               (attributeByteOffset dracoNormals) numPoints))"

definition assignDracoRGB ::
  "externals \<Rightarrow> default_point_cloud \<Rightarrow> nat \<Rightarrow> draco_decoder_result \<Rightarrow> default_point_cloud" where
  "assignDracoRGB ext pointCloud numPoints dracoDecoderResult =
     (case dracoDecoderResult ''RGB'' of
        None \<Rightarrow> pointCloud
      | Some dracoRGB \<Rightarrow>
          setNormalizedLinearColors pointCloud
            (IterablesMap
               (createColorsStandardRGBInternal (attributeData dracoRGB)
                  (attributeByteOffset dracoRGB) numPoints)
               (standardRGBToNormalizedLinearRGBA ext)))"

definition assignDracoRGBA ::
  "externals \<Rightarrow> default_point_cloud \<Rightarrow> nat \<Rightarrow> draco_decoder_result \<Rightarrow> default_point_cloud" where
  "assignDracoRGBA ext pointCloud numPoints dracoDecoderResult =
     (case dracoDecoderResult ''RGBA'' of
        None \<Rightarrow> pointCloud
      | Some dracoRGBA \<Rightarrow>
          setNormalizedLinearColors pointCloud
            (IterablesMap
               (createColorsStandardRGBAInternal (attributeData dracoRGBA)
                  (attributeByteOffset dracoRGBA) numPoints)
               (standardRGBAToNormalizedLinearRGBA ext)))"

definition assignDracoBatchIds ::
  "default_point_cloud \<Rightarrow> nat \<Rightarrow> draco_decoder_result \<Rightarrow> error + default_point_cloud" where
  "assignDracoBatchIds pointCloud numPoints dracoDecoderResult =
     (case dracoDecoderResult ''BATCH_ID'' of
        None \<Rightarrow> Inr pointCloud
      | Some dracoBatchId \<Rightarrow>
          (let legacyComponentType = componentDatatype dracoBatchId;
               batchIds = createBatchIdsInternal (attributeData dracoBatchId)
                            (attributeByteOffset dracoBatchId) legacyComponentType numPoints;
               componentType' = convertLegacyComponentTypeToComponentType legacyComponentType
           in addAttribute pointCloud ''_FEATURE_ID_0'' ''SCALAR'' componentType' batchIds))"

fun assignDracoProperties ::
  "default_point_cloud \<Rightarrow> nat \<Rightarrow> draco_decoder_result \<Rightarrow> batch_table \<Rightarrow> string list
   \<Rightarrow> error + default_point_cloud" where
  "assignDracoProperties pointCloud numPoints dracoDecoderResult batchTable [] = Inr pointCloud"
| "assignDracoProperties pointCloud numPoints dracoDecoderResult batchTable
     (propertyName # dracoPropertyNames) =
     (case dracoDecoderResult propertyName of
        None \<Rightarrow>
          assignDracoProperties pointCloud numPoints dracoDecoderResult batchTable
            dracoPropertyNames
      | Some dracoProperty \<Rightarrow>
          (case bt_properties batchTable propertyName of
             Some (BinaryBodyReference refByteOffset refComponentType legacyType) \<Rightarrow>
               (let legacyComponentType = componentDatatype dracoProperty;
                    prpertyValues = NumericScalarIterable legacyType legacyComponentType
                      (attributeData dracoProperty) (attributeByteOffset dracoProperty) numPoints;
                    type' = convertLegacyTypeToType legacyType;
                    componentType' =
                      convertLegacyComponentTypeToComponentType legacyComponentType
                in bind (addAttribute pointCloud propertyName type' componentType' prpertyValues)
                     (\<lambda>pointCloud'.
                        assignDracoProperties pointCloud' numPoints dracoDecoderResult batchTable
                          dracoPropertyNames))
           | _ \<Rightarrow>
               assignDracoProperties pointCloud numPoints dracoDecoderResult batchTable
                 dracoPropertyNames))"

definition assignDracoDecodedAttributes ::
  "externals \<Rightarrow> default_point_cloud \<Rightarrow> nat \<Rightarrow> draco_decoder_result \<Rightarrow> batch_table
   \<Rightarrow> error + default_point_cloud" where
  "assignDracoDecodedAttributes ext pointCloud numPoints dracoDecoderResult batchTable =
     (let pc1 = assignDracoPositions pointCloud numPoints dracoDecoderResult;
          pc2 = assignDracoNormals pc1 numPoints dracoDecoderResult;
          pc3 = assignDracoRGB ext pc2 numPoints dracoDecoderResult;
          pc4 = assignDracoRGBA ext pc3 numPoints dracoDecoderResult
      in bind (assignDracoBatchIds pc4 numPoints dracoDecoderResult) (\<lambda>pc5.
           assignDracoProperties pc5 numPoints dracoDecoderResult batchTable
             (obtainDracoPropertyNames batchTable)))"

subsection \<open>create (lines 40 to 142)\<close>

text \<open>
  The statements of \<open>create\<close>, one definition for each: the Draco step, then the five
  guarded assignments, then the global position.
\<close>

definition createDracoStep ::
  "externals \<Rightarrow> pnts_feature_table \<Rightarrow> buffer \<Rightarrow> batch_table \<Rightarrow> error + default_point_cloud" where
  "createDracoStep ext featureTable featureTableBinary batchTable =
     bind (obtainDracoDecodedAttributes ext featureTable featureTableBinary batchTable)
       (\<lambda>dracoDecoderResult.
          case dracoDecoderResult of
            None \<Rightarrow> Inr DefaultPointCloud_new
          | Some r \<Rightarrow>
              assignDracoDecodedAttributes ext DefaultPointCloud_new
                (POINTS_LENGTH featureTable) r batchTable)"

definition createPositionsStep ::
  "externals \<Rightarrow> pnts_feature_table \<Rightarrow> buffer \<Rightarrow> default_point_cloud
   \<Rightarrow> error + default_point_cloud" where
  "createPositionsStep ext featureTable featureTableBinary pointCloud =
     (if getAttributeValues pointCloud ''POSITION'' = None
      then bind (createPositions ext featureTable featureTableBinary) (\<lambda>positions.
             Inr (setPositions pointCloud positions))
      else Inr pointCloud)"

definition createNormalsStep ::
  "externals \<Rightarrow> pnts_feature_table \<Rightarrow> buffer \<Rightarrow> default_point_cloud \<Rightarrow> default_point_cloud" where
  "createNormalsStep ext featureTable featureTableBinary pointCloud =
     (if getAttributeValues pointCloud ''NORMAL'' = None
      then (case createNormals ext featureTable featureTableBinary of
              Some normals \<Rightarrow> setNormals pointCloud normals
            | None \<Rightarrow> pointCloud)
      else pointCloud)"

definition createColorsStep ::
  "externals \<Rightarrow> pnts_feature_table \<Rightarrow> buffer \<Rightarrow> default_point_cloud \<Rightarrow> default_point_cloud" where
  "createColorsStep ext featureTable featureTableBinary pointCloud =
     (if getAttributeValues pointCloud ''COLOR_0'' = None
      then (case createNormalizedLinearColors ext featureTable featureTableBinary of
              Some colors \<Rightarrow> setNormalizedLinearColors pointCloud colors
            | None \<Rightarrow> pointCloud)
      else pointCloud)"

definition createBatchIdsStep ::
  "pnts_feature_table \<Rightarrow> buffer \<Rightarrow> default_point_cloud \<Rightarrow> error + default_point_cloud" where
  "createBatchIdsStep featureTable featureTableBinary pointCloud =
     (if getAttributeValues pointCloud ''_FEATURE_ID_0'' = None
      then bind (createBatchIds featureTable featureTableBinary) (\<lambda>batchIds.
             case batchIds of
               None \<Rightarrow> Inr pointCloud
             | Some ids \<Rightarrow>
                 (case obtainBatchIdComponentType featureTable of
                    None \<Rightarrow> Inr pointCloud
                  | Some componentType' \<Rightarrow>
                      if componentType' \<noteq> []
                      then addAttribute pointCloud ''_FEATURE_ID_0'' ''SCALAR'' componentType' ids
                      else Inr pointCloud))
      else Inr pointCloud)"

definition createGlobalColorStep ::
  "externals \<Rightarrow> pnts_feature_table \<Rightarrow> buffer \<Rightarrow> default_point_cloud
   \<Rightarrow> error + default_point_cloud" where
  "createGlobalColorStep ext featureTable featureTableBinary pointCloud =
     (if getAttributeValues pointCloud ''COLOR_0'' = None
      then bind (createGlobalNormalizedLinearColor ext featureTable featureTableBinary)
             (\<lambda>globalColor'. Inr (setNormalizedLinearGlobalColor pointCloud globalColor'))
      else Inr pointCloud)"

definition createGlobalPositionStep ::
  "externals \<Rightarrow> pnts_feature_table \<Rightarrow> buffer \<Rightarrow> default_point_cloud
   \<Rightarrow> error + default_point_cloud" where
  "createGlobalPositionStep ext featureTable featureTableBinary pointCloud =
     bind (obtainGlobalPosition ext featureTable featureTableBinary) (\<lambda>globalPosition'.
       Inr (setGlobalPosition pointCloud globalPosition'))"

definition create ::
  "externals \<Rightarrow> pnts_feature_table \<Rightarrow> buffer \<Rightarrow> batch_table \<Rightarrow> error + default_point_cloud" where
  "create ext featureTable featureTableBinary batchTable =
     bind (createDracoStep ext featureTable featureTableBinary batchTable) (\<lambda>pc1.
     bind (createPositionsStep ext featureTable featureTableBinary pc1) (\<lambda>pc2.
     bind (createBatchIdsStep featureTable featureTableBinary
             (createColorsStep ext featureTable featureTableBinary
                (createNormalsStep ext featureTable featureTableBinary pc2))) (\<lambda>pc5.
     bind (createGlobalColorStep ext featureTable featureTableBinary pc5) (\<lambda>pc6.
     createGlobalPositionStep ext featureTable featureTableBinary pc6))))"

text \<open>The point cloud after the four setters of the Draco step.\<close>

definition dracoSlots ::
  "externals \<Rightarrow> nat \<Rightarrow> draco_decoder_result \<Rightarrow> default_point_cloud" where
  "dracoSlots ext n r =
     assignDracoRGBA ext (assignDracoRGB ext
       (assignDracoNormals (assignDracoPositions DefaultPointCloud_new n r) n r) n r) n r"

text \<open>Concrete inputs for the examples.\<close>

definition exampleExternals :: externals where
  "exampleExternals =
     \<lparr>decodePointCloud = (\<lambda>allProperties buffer. None),
      readNumberArray = (\<lambda>binary byteOffset' len componentTypeName. None),
      numericArrayValues = (\<lambda>t c binary byteOffset' n. Some (replicate n [0, 65535, 13107])),
      numericScalarValues = (\<lambda>t c binary byteOffset' n. Some (replicate n [7])),
      octDecode = (\<lambda>v. v),
      standardToLinear = (\<lambda>x. x / 255),
      standardRGBAToNormalizedLinearRGBA = map (\<lambda>x. x / 255),
      decodeRGB565 = (\<lambda>v. [0, 0, 0])\<rparr>"

definition emptyFeatureTable :: pnts_feature_table where
  "emptyFeatureTable =
     \<lparr>POSITION = None, POSITION_QUANTIZED = None, RGBA = None, RGB = None, RGB565 = None,
      NORMAL = None, NORMAL_OCT16P = None, BATCH_ID = None, POINTS_LENGTH = 2,
      RTC_CENTER = None, QUANTIZED_VOLUME_OFFSET = None, QUANTIZED_VOLUME_SCALE = None,
      CONSTANT_RGBA = None, BATCH_LENGTH = None, extensions = None\<rparr>"

definition emptyBatchTable :: batch_table where
  "emptyBatchTable = \<lparr>bt_properties = Map.empty, bt_extensions = None\<rparr>"

text \<open>
  A tile with the Draco extension: the decoder returns POSITION, RGB and RGBA, and three
  further properties. The batch table lists two of them in its own extension: one is a
  reference into the binary body, the other an inline JSON value.
\<close>

definition exampleDracoResult :: draco_decoder_result where
  "exampleDracoResult =
     [''POSITION'' \<mapsto> \<lparr>attributeData = [1], attributeByteOffset = 0, componentDatatype = FLOAT\<rparr>,
      ''RGB'' \<mapsto> \<lparr>attributeData = [2], attributeByteOffset = 0,
                  componentDatatype = UNSIGNED_BYTE\<rparr>,
      ''RGBA'' \<mapsto> \<lparr>attributeData = [3], attributeByteOffset = 0,
                   componentDatatype = UNSIGNED_BYTE\<rparr>,
      ''intensity'' \<mapsto> \<lparr>attributeData = [4], attributeByteOffset = 0,
                        componentDatatype = UNSIGNED_SHORT\<rparr>,
      ''classification'' \<mapsto> \<lparr>attributeData = [5], attributeByteOffset = 0,
                             componentDatatype = UNSIGNED_BYTE\<rparr>,
      ''elevation'' \<mapsto> \<lparr>attributeData = [6], attributeByteOffset = 0,
                        componentDatatype = FLOAT\<rparr>]"

definition exampleDracoExternals :: externals where
  "exampleDracoExternals =
     exampleExternals\<lparr>decodePointCloud := (\<lambda>allProperties buffer. Some exampleDracoResult)\<rparr>"

definition exampleDracoFeatureTable :: pnts_feature_table where
  "exampleDracoFeatureTable =
     emptyFeatureTable\<lparr>extensions := Some
       [''3DTILES_draco_point_compression'' \<mapsto>
          \<lparr>properties = [(''POSITION'', 0), (''RGB'', 1), (''RGBA'', 2), (''elevation'', 5)],
           ext_byteOffset = 0, ext_byteLength = 0\<rparr>]\<rparr>"

definition exampleDracoBatchTable :: batch_table where
  "exampleDracoBatchTable =
     \<lparr>bt_properties =
        [''intensity'' \<mapsto> BinaryBodyReference 0 UNSIGNED_BYTE SCALAR,
         ''classification'' \<mapsto> JsonValue],
      bt_extensions = Some
        [''3DTILES_draco_point_compression'' \<mapsto> [(''intensity'', 3), (''classification'', 4)]]\<rparr>"

section \<open>Properties of TilesetSourceFs\<close>

lemma open_nonempty_then_open_fails:
  assumes "name \<noteq> []" and "TilesetSourceFs_open this name = Inr s"
  shows "TilesetSourceFs_open s other = Inl (TilesetError ''Source already opened'')"
  using assms by (auto simp: TilesetSourceFs_open_def truthy_def split: if_splits)

lemma closed_operations_fail:
  assumes "fullInputName this = None"
  shows "TilesetSourceFs_getKeys fs this = Inl (TilesetError ''Source is not opened. Call 'open' first.'')"
    and "TilesetSourceFs_getValue fs this key = Inl (TilesetError ''Source is not opened. Call 'open' first.'')"
    and "TilesetSourceFs_close this = Inl (TilesetError ''Source is not opened. Call 'open' first.'')"
  using assms
  by (simp_all add: TilesetSourceFs_getKeys_def TilesetSourceFs_getValue_def
      TilesetSourceFs_close_def truthy_def)

lemma getValue_missing_file:
  assumes "name \<noteq> []" and "fullInputName this = Some name"
    and "\<not> existsSync fs (path_join fs name key)"
  shows "TilesetSourceFs_getValue fs this key = Inr None"
  using assms by (simp add: TilesetSourceFs_getValue_def truthy_def)

lemma close_then_open:
  assumes "TilesetSourceFs_close this = Inr s"
  shows "TilesetSourceFs_open s name = Inr (s\<lparr>fullInputName := Some name\<rparr>)"
  using assms
  by (auto simp: TilesetSourceFs_close_def TilesetSourceFs_open_def truthy_def split: if_splits)

text \<open>
  C10. The claim is that the source is a strict open/use/close state machine: a second
  \<open>open\<close> throws, and \<open>getKeys\<close>, \<open>getValue\<close> and \<open>close\<close> throw only when the source is
  not opened. The code evaluated at the directory name \<open>""\<close>: \<open>open("")\<close> succeeds,
  after which a second \<open>open\<close> succeeds as well, and \<open>getKeys\<close>, \<open>getValue\<close> and \<open>close\<close>
  all throw "Source is not opened" although the source has been opened.
\<close>

theorem TilesetSourceFs_open_empty_name:
  "TilesetSourceFs_open TilesetSourceFs_new [] = Inr \<lparr>fullInputName = Some []\<rparr>
   \<and> TilesetSourceFs_open \<lparr>fullInputName = Some []\<rparr> ''tiles''
       = Inr \<lparr>fullInputName = Some ''tiles''\<rparr>
   \<and> TilesetSourceFs_getKeys fs \<lparr>fullInputName = Some []\<rparr>
       = Inl (TilesetError ''Source is not opened. Call 'open' first.'')
   \<and> TilesetSourceFs_getValue fs \<lparr>fullInputName = Some []\<rparr> key
       = Inl (TilesetError ''Source is not opened. Call 'open' first.'')
   \<and> TilesetSourceFs_close \<lparr>fullInputName = Some []\<rparr>
       = Inl (TilesetError ''Source is not opened. Call 'open' first.'')"
  by (simp add: TilesetSourceFs_open_def TilesetSourceFs_new_def TilesetSourceFs_getKeys_def
      TilesetSourceFs_getValue_def TilesetSourceFs_close_def truthy_def)

section \<open>Properties of PntsPointClouds\<close>

subsection \<open>Basic facts\<close>

lemma bind_Inl [simp]: "bind (Inl e) f = Inl e"
  by (simp add: bind_def)

lemma bind_Inr [simp]: "bind (Inr x) f = f x"
  by (simp add: bind_def)

lemma bind_eq_Inr: "bind m f = Inr y \<longleftrightarrow> (\<exists>x. m = Inr x \<and> f x = Inr y)"
  by (cases m) simp_all

lemma bind_eq_Inl: "bind m f = Inl e \<longleftrightarrow> m = Inl e \<or> (\<exists>x. m = Inr x \<and> f x = Inl e)"
  by (cases m) simp_all

lemma attributes_setAttribute [simp]:
  "attributes (setAttribute pc name t c v) =
     (attributes pc)(name \<mapsto> \<lparr>attributeType = t, attributeComponentType = c, attributeValues = v\<rparr>)"
  by (simp add: setAttribute_def)

lemma globals_setAttribute [simp]:
  "globalPosition (setAttribute pc name t c v) = globalPosition pc"
  "globalColor (setAttribute pc name t c v) = globalColor pc"
  by (simp_all add: setAttribute_def)

lemma getAttributeValues_None [simp]:
  "getAttributeValues pc name = None \<longleftrightarrow> attributes pc name = None"
  by (simp add: getAttributeValues_def)

lemma addAttribute_Inr:
  "addAttribute pc name t c v = Inr pc' \<longleftrightarrow>
     attributes pc name = None \<and> pc' = setAttribute pc name t c v"
  by (auto simp: addAttribute_def)

lemma addAttribute_Inl:
  "addAttribute pc name t c v = Inl e \<longleftrightarrow>
     attributes pc name \<noteq> None \<and> e = AttributeAlreadyPresent name"
  by (auto simp: addAttribute_def)

lemma obtainQuantizationOffsetScale_absent:
  "QUANTIZED_VOLUME_OFFSET ft = None \<or> QUANTIZED_VOLUME_SCALE ft = None \<Longrightarrow>
   obtainQuantizationOffsetScale ext ft bin = Inr None"
  by (auto simp: obtainQuantizationOffsetScale_def split: option.splits)

lemma obtainQuantizationOffsetScale_Some:
  "obtainQuantizationOffsetScale ext ft bin = Inr (Some q) \<Longrightarrow>
   QUANTIZED_VOLUME_OFFSET ft \<noteq> None \<and> QUANTIZED_VOLUME_SCALE ft \<noteq> None"
  by (auto simp: obtainQuantizationOffsetScale_def split: option.splits)

lemma obtainQuantizationOffsetScale_not_format:
  "obtainQuantizationOffsetScale ext ft bin \<noteq> Inl (TileFormatError m)"
  by (auto simp: obtainQuantizationOffsetScale_def obtainNumberArray_def bind_eq_Inl
      split: option.splits number_array_property.splits)

lemma obtainQuantizationOffsetScale_cong:
  "QUANTIZED_VOLUME_OFFSET ft = QUANTIZED_VOLUME_OFFSET ft' \<Longrightarrow>
   QUANTIZED_VOLUME_SCALE ft = QUANTIZED_VOLUME_SCALE ft' \<Longrightarrow>
   obtainQuantizationOffsetScale ext ft bin = obtainQuantizationOffsetScale ext ft' bin"
  by (simp add: obtainQuantizationOffsetScale_def cong: option.case_cong)

lemma obtainGlobalPosition_cong:
  "RTC_CENTER ft = RTC_CENTER ft' \<Longrightarrow>
   QUANTIZED_VOLUME_OFFSET ft = QUANTIZED_VOLUME_OFFSET ft' \<Longrightarrow>
   QUANTIZED_VOLUME_SCALE ft = QUANTIZED_VOLUME_SCALE ft' \<Longrightarrow>
   obtainGlobalPosition ext ft bin = obtainGlobalPosition ext ft' bin"
  by (simp add: obtainGlobalPosition_def obtainQuantizationOffsetScale_cong [of ft ft']
      cong: option.case_cong)

text \<open>
  C6. The global position. The quantization is present only when both
  \<open>QUANTIZED_VOLUME_OFFSET\<close> and \<open>QUANTIZED_VOLUME_SCALE\<close> are. With neither the RTC center
  nor the quantization the global position is undefined; an RTC center \<open>[x, y, z]\<close> gives
  \<open>[x, z, -y]\<close>; with the quantization the global position starts from \<open>[0, 0, 0]\<close> if it
  is still undefined, and the offset \<open>[ox, oy, oz]\<close> is added as \<open>[ox, oz, -oy]\<close>. It does not
  depend on \<open>POSITION\<close> or \<open>POSITION_QUANTIZED\<close>, and it is what a successful \<open>create\<close>
  stores in the point cloud.
\<close>

theorem obtainGlobalPosition_cases:
  "(QUANTIZED_VOLUME_OFFSET ft = None \<or> QUANTIZED_VOLUME_SCALE ft = None \<longrightarrow>
      obtainQuantizationOffsetScale ext ft bin = Inr None)
   \<and> (QUANTIZED_VOLUME_OFFSET ft = Some (NumberArray off) \<and>
      QUANTIZED_VOLUME_SCALE ft = Some (NumberArray sc) \<longrightarrow>
      obtainQuantizationOffsetScale ext ft bin = Inr (Some \<lparr>offset = off, scale = sc\<rparr>))
   \<and> (obtainRtcCenter ext (NumberArray c) bin = Inr c)
   \<and> (RTC_CENTER ft = None \<and> obtainQuantizationOffsetScale ext ft bin = Inr None \<longrightarrow>
      obtainGlobalPosition ext ft bin = Inr None)
   \<and> (RTC_CENTER ft = Some rtc \<and> obtainRtcCenter ext rtc bin = Inr [x, y, z] \<and>
      obtainQuantizationOffsetScale ext ft bin = Inr None \<longrightarrow>
      obtainGlobalPosition ext ft bin = Inr (Some [x, z, - y]))
   \<and> (RTC_CENTER ft = None \<and>
      obtainQuantizationOffsetScale ext ft bin = Inr (Some \<lparr>offset = [ox, oy, oz], scale = sc\<rparr>) \<longrightarrow>
      obtainGlobalPosition ext ft bin = Inr (Some [0 + ox, 0 + oz, 0 + - oy]))
   \<and> (RTC_CENTER ft = Some rtc \<and> obtainRtcCenter ext rtc bin = Inr [x, y, z] \<and>
      obtainQuantizationOffsetScale ext ft bin = Inr (Some \<lparr>offset = [ox, oy, oz], scale = sc\<rparr>) \<longrightarrow>
      obtainGlobalPosition ext ft bin = Inr (Some [x + ox, z + oz, - y + - oy]))
   \<and> obtainGlobalPosition ext (ft\<lparr>POSITION := p, POSITION_QUANTIZED := pq\<rparr>) bin
       = obtainGlobalPosition ext ft bin
   \<and> (create ext ft bin bt = Inr pc \<longrightarrow>
      obtainGlobalPosition ext ft bin = Inr (globalPosition pc))"
proof -
  have q1: "QUANTIZED_VOLUME_OFFSET ft = None \<or> QUANTIZED_VOLUME_SCALE ft = None \<longrightarrow>
      obtainQuantizationOffsetScale ext ft bin = Inr None"
    by (auto simp: obtainQuantizationOffsetScale_def split: option.splits)
  have q2: "QUANTIZED_VOLUME_OFFSET ft = Some (NumberArray off) \<and>
      QUANTIZED_VOLUME_SCALE ft = Some (NumberArray sc) \<longrightarrow>
      obtainQuantizationOffsetScale ext ft bin = Inr (Some \<lparr>offset = off, scale = sc\<rparr>)"
    by (simp add: obtainQuantizationOffsetScale_def obtainNumberArray_def)
  have r: "obtainRtcCenter ext (NumberArray c) bin = Inr c"
    by (simp add: obtainRtcCenter_def obtainNumberArray_def)
  have g1: "RTC_CENTER ft = None \<and> obtainQuantizationOffsetScale ext ft bin = Inr None \<longrightarrow>
      obtainGlobalPosition ext ft bin = Inr None"
    by (simp add: obtainGlobalPosition_def)
  have g2: "RTC_CENTER ft = Some rtc \<and> obtainRtcCenter ext rtc bin = Inr [x, y, z] \<and>
      obtainQuantizationOffsetScale ext ft bin = Inr None \<longrightarrow>
      obtainGlobalPosition ext ft bin = Inr (Some [x, z, - y])"
    by (simp add: obtainGlobalPosition_def)
  have g3: "RTC_CENTER ft = None \<and>
      obtainQuantizationOffsetScale ext ft bin = Inr (Some \<lparr>offset = [ox, oy, oz], scale = sc\<rparr>) \<longrightarrow>
      obtainGlobalPosition ext ft bin = Inr (Some [0 + ox, 0 + oz, 0 + - oy])"
    by (simp add: obtainGlobalPosition_def)
  have g4: "RTC_CENTER ft = Some rtc \<and> obtainRtcCenter ext rtc bin = Inr [x, y, z] \<and>
      obtainQuantizationOffsetScale ext ft bin = Inr (Some \<lparr>offset = [ox, oy, oz], scale = sc\<rparr>) \<longrightarrow>
      obtainGlobalPosition ext ft bin = Inr (Some [x + ox, z + oz, - y + - oy])"
    by (simp add: obtainGlobalPosition_def)
  have i: "obtainGlobalPosition ext (ft\<lparr>POSITION := p, POSITION_QUANTIZED := pq\<rparr>) bin
       = obtainGlobalPosition ext ft bin"
    by (rule obtainGlobalPosition_cong) simp_all
  have c: "create ext ft bin bt = Inr pc \<longrightarrow>
      obtainGlobalPosition ext ft bin = Inr (globalPosition pc)"
    by (auto simp: create_def createGlobalPositionStep_def bind_eq_Inr setGlobalPosition_def)
  from q1 q2 r g1 g2 g3 g4 i c show ?thesis by blast
qed

text \<open>
  The RTC center \<open>[1, 2, 3]\<close> without quantization gives \<open>[1, 3, -2]\<close>; further tables with
  the quantization offset \<open>[10, 20, 30]\<close>.
\<close>

theorem obtainGlobalPosition_cases_witness:
  "obtainGlobalPosition exampleExternals
     (emptyFeatureTable\<lparr>RTC_CENTER := Some (NumberArray [1, 2, 3])\<rparr>) [] = Inr (Some [1, 3, - 2])
   \<and> obtainGlobalPosition exampleExternals
     (emptyFeatureTable\<lparr>RTC_CENTER := Some (NumberArray [1, 2, 3]),
        QUANTIZED_VOLUME_OFFSET := Some (NumberArray [10, 20, 30]),
        QUANTIZED_VOLUME_SCALE := Some (NumberArray [2, 4, 10])\<rparr>) []
       = Inr (Some [1 + 10, 3 + 30, - 2 + - 20])
   \<and> obtainGlobalPosition exampleExternals
     (emptyFeatureTable\<lparr>QUANTIZED_VOLUME_OFFSET := Some (NumberArray [10, 20, 30]),
        QUANTIZED_VOLUME_SCALE := Some (NumberArray [2, 4, 10])\<rparr>) []
       = Inr (Some [0 + 10, 0 + 30, 0 + - 20])
   \<and> obtainGlobalPosition exampleExternals
     (emptyFeatureTable\<lparr>QUANTIZED_VOLUME_OFFSET := Some (NumberArray [10, 20, 30])\<rparr>) []
       = Inr None"
proof -
  let ?e = exampleExternals
  let ?t1 = "emptyFeatureTable\<lparr>RTC_CENTER := Some (NumberArray [1, 2, 3])\<rparr>"
  let ?t2 = "emptyFeatureTable\<lparr>RTC_CENTER := Some (NumberArray [1, 2, 3]),
        QUANTIZED_VOLUME_OFFSET := Some (NumberArray [10, 20, 30]),
        QUANTIZED_VOLUME_SCALE := Some (NumberArray [2, 4, 10])\<rparr>"
  let ?t3 = "emptyFeatureTable\<lparr>QUANTIZED_VOLUME_OFFSET := Some (NumberArray [10, 20, 30]),
        QUANTIZED_VOLUME_SCALE := Some (NumberArray [2, 4, 10])\<rparr>"
  let ?t4 = "emptyFeatureTable\<lparr>QUANTIZED_VOLUME_OFFSET := Some (NumberArray [10, 20, 30])\<rparr>"
  have rtc: "obtainRtcCenter ?e (NumberArray [1, 2, 3]) [] = Inr [1, 2, 3]"
    using obtainGlobalPosition_cases [where ext = ?e and bin = "[]" and c = "[1, 2, 3]"]
    by blast
  have q1: "obtainQuantizationOffsetScale ?e ?t1 [] = Inr None"
    using obtainGlobalPosition_cases [where ft = ?t1 and ext = ?e and bin = "[]"]
    by (simp add: emptyFeatureTable_def)
  have q2: "obtainQuantizationOffsetScale ?e ?t2 []
      = Inr (Some \<lparr>offset = [10, 20, 30], scale = [2, 4, 10]\<rparr>)"
    using obtainGlobalPosition_cases [where ft = ?t2 and ext = ?e and bin = "[]"
        and off = "[10, 20, 30]" and sc = "[2, 4, 10]"]
    by simp
  have q3: "obtainQuantizationOffsetScale ?e ?t3 []
      = Inr (Some \<lparr>offset = [10, 20, 30], scale = [2, 4, 10]\<rparr>)"
    using obtainGlobalPosition_cases [where ft = ?t3 and ext = ?e and bin = "[]"
        and off = "[10, 20, 30]" and sc = "[2, 4, 10]"]
    by simp
  have q4: "obtainQuantizationOffsetScale ?e ?t4 [] = Inr None"
    using obtainGlobalPosition_cases [where ft = ?t4 and ext = ?e and bin = "[]"]
    by (simp add: emptyFeatureTable_def)
  have g1: "obtainGlobalPosition ?e ?t1 [] = Inr (Some [1, 3, - 2])"
    using obtainGlobalPosition_cases [where ft = ?t1 and ext = ?e and bin = "[]"
        and rtc = "NumberArray [1, 2, 3]" and x = 1 and y = 2 and z = 3] rtc q1
    by simp
  have g2: "obtainGlobalPosition ?e ?t2 [] = Inr (Some [1 + 10, 3 + 30, - 2 + - 20])"
    using obtainGlobalPosition_cases [where ft = ?t2 and ext = ?e and bin = "[]"
        and rtc = "NumberArray [1, 2, 3]" and x = 1 and y = 2 and z = 3
        and ox = 10 and oy = 20 and oz = 30 and sc = "[2, 4, 10]"] rtc q2
    by simp
  have g3: "obtainGlobalPosition ?e ?t3 [] = Inr (Some [0 + 10, 0 + 30, 0 + - 20])"
    using obtainGlobalPosition_cases [where ft = ?t3 and ext = ?e and bin = "[]"
        and ox = 10 and oy = 20 and oz = 30 and sc = "[2, 4, 10]"] q3
    by (simp add: emptyFeatureTable_def)
  have g4: "obtainGlobalPosition ?e ?t4 [] = Inr None"
    using obtainGlobalPosition_cases [where ft = ?t4 and ext = ?e and bin = "[]"] q4
    by (simp add: emptyFeatureTable_def)
  from g1 g2 g3 g4 show ?thesis by blast
qed

subsection \<open>How each step of create changes the attributes\<close>

lemma createPositionsStep_Inr:
  assumes "createPositionsStep ext ft bin pc = Inr pc'"
  shows "attributes pc \<subseteq>\<^sub>m attributes pc'"
    and "name \<noteq> ''POSITION'' \<Longrightarrow> attributes pc' name = attributes pc name"
    and "globalPosition pc' = globalPosition pc" and "globalColor pc' = globalColor pc"
  using assms
  by (auto simp: createPositionsStep_def setPositions_def bind_eq_Inr map_le_def
      split: if_splits)

lemma createNormalsStep_attributes:
  "attributes pc \<subseteq>\<^sub>m attributes (createNormalsStep ext ft bin pc)"
  "name \<noteq> ''NORMAL'' \<Longrightarrow> attributes (createNormalsStep ext ft bin pc) name = attributes pc name"
  "globalPosition (createNormalsStep ext ft bin pc) = globalPosition pc"
  "globalColor (createNormalsStep ext ft bin pc) = globalColor pc"
  by (auto simp: createNormalsStep_def setNormals_def map_le_def split: option.splits)

lemma createColorsStep_attributes:
  "attributes pc \<subseteq>\<^sub>m attributes (createColorsStep ext ft bin pc)"
  "name \<noteq> ''COLOR_0'' \<Longrightarrow> attributes (createColorsStep ext ft bin pc) name = attributes pc name"
  "globalPosition (createColorsStep ext ft bin pc) = globalPosition pc"
  "globalColor (createColorsStep ext ft bin pc) = globalColor pc"
  by (auto simp: createColorsStep_def setNormalizedLinearColors_def map_le_def
      split: option.splits)

lemma createBatchIdsStep_cases:
  assumes "createBatchIdsStep ft bin pc = Inr pc'"
  shows "pc' = pc \<or> (attributes pc ''_FEATURE_ID_0'' = None \<and>
           (\<exists>c v. pc' = setAttribute pc ''_FEATURE_ID_0'' ''SCALAR'' c v))"
  using assms
  by (auto simp: createBatchIdsStep_def bind_def addAttribute_Inr
      split: if_splits option.splits sum.splits)

lemma createBatchIdsStep_Inr:
  assumes "createBatchIdsStep ft bin pc = Inr pc'"
  shows "attributes pc \<subseteq>\<^sub>m attributes pc'"
    and "name \<noteq> ''_FEATURE_ID_0'' \<Longrightarrow> attributes pc' name = attributes pc name"
    and "globalPosition pc' = globalPosition pc" and "globalColor pc' = globalColor pc"
  using createBatchIdsStep_cases [OF assms]
  by (auto simp: map_le_def)

lemma createGlobalColorStep_Inr:
  assumes "createGlobalColorStep ext ft bin pc = Inr pc'"
  shows "attributes pc' = attributes pc" and "globalPosition pc' = globalPosition pc"
  using assms
  by (auto simp: createGlobalColorStep_def setNormalizedLinearGlobalColor_def bind_eq_Inr
      split: if_splits)

lemma createGlobalPositionStep_Inr:
  assumes "createGlobalPositionStep ext ft bin pc = Inr pc'"
  shows "attributes pc' = attributes pc" and "globalColor pc' = globalColor pc"
  using assms
  by (auto simp: createGlobalPositionStep_def setGlobalPosition_def bind_eq_Inr)

text \<open>A successful call of create is the chain of its steps.\<close>

lemma create_Inr:
  "create ext ft bin bt = Inr pc \<longleftrightarrow>
     (\<exists>pc1 pc2 pc5 pc6.
        createDracoStep ext ft bin bt = Inr pc1 \<and>
        createPositionsStep ext ft bin pc1 = Inr pc2 \<and>
        createBatchIdsStep ft bin
          (createColorsStep ext ft bin (createNormalsStep ext ft bin pc2)) = Inr pc5 \<and>
        createGlobalColorStep ext ft bin pc5 = Inr pc6 \<and>
        createGlobalPositionStep ext ft bin pc6 = Inr pc)"
  by (simp add: create_def bind_eq_Inr)

subsection \<open>The Draco step\<close>

lemma assignDracoProperties_mono:
  "assignDracoProperties pc n r bt names = Inr pc' \<Longrightarrow> attributes pc \<subseteq>\<^sub>m attributes pc'"
proof (induction names arbitrary: pc)
  case Nil
  then show ?case by simp
next
  case (Cons name names)
  show ?case
  proof (cases "r name")
    case None
    with Cons show ?thesis by simp
  next
    case (Some dp)
    show ?thesis
    proof (cases "bt_properties bt name")
      case None
      with Some Cons show ?thesis by simp
    next
      case (Some p)
      show ?thesis
      proof (cases p)
        case JsonValue
        with Some \<open>r name = Some dp\<close> Cons show ?thesis by simp
      next
        case (BinaryBodyReference off c ty)
        with Some \<open>r name = Some dp\<close> Cons.prems obtain pcm where
          a: "addAttribute pc name (convertLegacyTypeToType ty)
                (convertLegacyComponentTypeToComponentType (componentDatatype dp))
                (NumericScalarIterable ty (componentDatatype dp) (attributeData dp)
                   (attributeByteOffset dp) n) = Inr pcm"
          and b: "assignDracoProperties pcm n r bt names = Inr pc'"
          by (auto simp: bind_eq_Inr Let_def)
        from a have "attributes pc \<subseteq>\<^sub>m attributes pcm"
          by (auto simp: addAttribute_Inr map_le_def)
        moreover from b have "attributes pcm \<subseteq>\<^sub>m attributes pc'" by (rule Cons.IH)
        ultimately show ?thesis by (rule map_le_trans)
      qed
    qed
  qed
qed

lemma assignDracoProperties_globals:
  "assignDracoProperties pc n r bt names = Inr pc' \<Longrightarrow>
   globalPosition pc' = globalPosition pc \<and> globalColor pc' = globalColor pc"
proof (induction names arbitrary: pc)
  case Nil
  then show ?case by simp
next
  case (Cons name names)
  then show ?case
    by (auto simp: bind_eq_Inr Let_def addAttribute_Inr
        split: option.splits batch_table_property.splits)
qed

text \<open>The loop only adds names that the Draco result has.\<close>

lemma assignDracoProperties_absent:
  "assignDracoProperties pc n r bt names = Inr pc' \<Longrightarrow> r name = None \<Longrightarrow>
   attributes pc' name = attributes pc name"
proof (induction names arbitrary: pc)
  case Nil
  then show ?case by simp
next
  case (Cons a names)
  then show ?case
    by (auto simp: bind_eq_Inr Let_def addAttribute_Inr
        split: option.splits batch_table_property.splits)
qed

lemma assignDracoProperties_not_listed:
  "assignDracoProperties pc n r bt names = Inr pc' \<Longrightarrow> name \<notin> set names \<Longrightarrow>
   attributes pc' name = attributes pc name"
proof (induction names arbitrary: pc)
  case Nil
  then show ?case by simp
next
  case (Cons a names)
  then show ?case
    by (auto simp: bind_eq_Inr Let_def addAttribute_Inr
        split: option.splits batch_table_property.splits)
qed

lemma assignDracoProperties_listed:
  "assignDracoProperties pc n r bt names = Inr pc' \<Longrightarrow> name \<in> set names \<Longrightarrow>
   r name = Some dp \<Longrightarrow> bt_properties bt name = Some (BinaryBodyReference off c ty) \<Longrightarrow>
   attributes pc' name =
     Some \<lparr>attributeType = convertLegacyTypeToType ty,
           attributeComponentType =
             convertLegacyComponentTypeToComponentType (componentDatatype dp),
           attributeValues = NumericScalarIterable ty (componentDatatype dp)
             (attributeData dp) (attributeByteOffset dp) n\<rparr>"
proof (induction names arbitrary: pc)
  case Nil
  then show ?case by simp
next
  case (Cons a names)
  show ?case
  proof (cases "a = name")
    case True
    with Cons.prems obtain pcm where
      a: "addAttribute pc name (convertLegacyTypeToType ty)
            (convertLegacyComponentTypeToComponentType (componentDatatype dp))
            (NumericScalarIterable ty (componentDatatype dp) (attributeData dp)
               (attributeByteOffset dp) n) = Inr pcm"
      and b: "assignDracoProperties pcm n r bt names = Inr pc'"
      by (auto simp: bind_eq_Inr Let_def)
    from a have "attributes pcm name =
      Some \<lparr>attributeType = convertLegacyTypeToType ty,
           attributeComponentType =
             convertLegacyComponentTypeToComponentType (componentDatatype dp),
           attributeValues = NumericScalarIterable ty (componentDatatype dp)
             (attributeData dp) (attributeByteOffset dp) n\<rparr>"
      by (auto simp: addAttribute_Inr)
    with assignDracoProperties_mono [OF b] show ?thesis
      by (auto simp: map_le_def dom_def)
  next
    case False
    with Cons.prems obtain pcm where
      b: "assignDracoProperties pcm n r bt names = Inr pc'"
      by (auto simp: bind_eq_Inr Let_def split: option.splits batch_table_property.splits)
    from False Cons.prems have "name \<in> set names" by simp
    from Cons.IH [OF b this Cons.prems(3) Cons.prems(4)] show ?thesis .
  qed
qed

lemma assignDracoProperties_error:
  "assignDracoProperties pc n r bt names = Inl e \<Longrightarrow> \<exists>name. e = AttributeAlreadyPresent name"
proof (induction names arbitrary: pc)
  case Nil
  then show ?case by simp
next
  case (Cons a names)
  then show ?case
    by (auto simp: bind_eq_Inl Let_def addAttribute_Inl
        split: option.splits batch_table_property.splits)
qed

lemma dracoSlots_POSITION:
  "attributes (dracoSlots ext n r) ''POSITION'' =
     map_option (\<lambda>dp. \<lparr>attributeType = ''VEC3'', attributeComponentType = ''FLOAT32'',
        attributeValues = NumericArrayIterable VEC3 FLOAT (attributeData dp)
          (attributeByteOffset dp) n\<rparr>) (r ''POSITION'')"
  by (simp add: dracoSlots_def assignDracoRGBA_def assignDracoRGB_def assignDracoNormals_def
      assignDracoPositions_def DefaultPointCloud_new_def setPositions_def setNormals_def
      setNormalizedLinearColors_def createPositionsInternal_def split: option.splits)

lemma dracoSlots_FEATURE_ID: "attributes (dracoSlots ext n r) ''_FEATURE_ID_0'' = None"
  by (simp add: dracoSlots_def assignDracoRGBA_def assignDracoRGB_def assignDracoNormals_def
      assignDracoPositions_def DefaultPointCloud_new_def setPositions_def setNormals_def
      setNormalizedLinearColors_def split: option.splits)

lemma dracoSlots_globals:
  "globalPosition (dracoSlots ext n r) = None" "globalColor (dracoSlots ext n r) = None"
  by (simp_all add: dracoSlots_def assignDracoRGBA_def assignDracoRGB_def
      assignDracoNormals_def assignDracoPositions_def DefaultPointCloud_new_def
      setPositions_def setNormals_def setNormalizedLinearColors_def split: option.splits)

lemma assignDracoDecodedAttributes_Inr:
  "assignDracoDecodedAttributes ext DefaultPointCloud_new n r bt = Inr pc1 \<longleftrightarrow>
     (\<exists>pc5. assignDracoBatchIds (dracoSlots ext n r) n r = Inr pc5 \<and>
            assignDracoProperties pc5 n r bt (obtainDracoPropertyNames bt) = Inr pc1)"
  by (simp add: assignDracoDecodedAttributes_def dracoSlots_def Let_def bind_eq_Inr)

lemma assignDracoBatchIds_Inr:
  assumes "assignDracoBatchIds pc n r = Inr pc5"
  shows "attributes pc \<subseteq>\<^sub>m attributes pc5"
    and "name \<noteq> ''_FEATURE_ID_0'' \<Longrightarrow> attributes pc5 name = attributes pc name"
    and "globalPosition pc5 = globalPosition pc" and "globalColor pc5 = globalColor pc"
  using assms
  by (auto simp: assignDracoBatchIds_def Let_def addAttribute_Inr map_le_def
      split: option.splits)

lemma assignDracoDecodedAttributes_error:
  "assignDracoDecodedAttributes ext pc n r bt = Inl e \<Longrightarrow>
   \<exists>name. e = AttributeAlreadyPresent name"
  by (auto simp: assignDracoDecodedAttributes_def Let_def bind_eq_Inl assignDracoBatchIds_def
      addAttribute_Inl dest: assignDracoProperties_error split: option.splits)

lemma assignDraco_POSITION:
  assumes "assignDracoDecodedAttributes ext DefaultPointCloud_new n r bt = Inr pc1"
  shows "attributes pc1 ''POSITION'' =
     map_option (\<lambda>dp. \<lparr>attributeType = ''VEC3'', attributeComponentType = ''FLOAT32'',
        attributeValues = NumericArrayIterable VEC3 FLOAT (attributeData dp)
          (attributeByteOffset dp) n\<rparr>) (r ''POSITION'')"
proof -
  from assms obtain pc5 where
    a: "assignDracoBatchIds (dracoSlots ext n r) n r = Inr pc5" and
    b: "assignDracoProperties pc5 n r bt (obtainDracoPropertyNames bt) = Inr pc1"
    by (auto simp: assignDracoDecodedAttributes_Inr)
  have p5: "attributes pc5 ''POSITION'' = attributes (dracoSlots ext n r) ''POSITION''"
    using assignDracoBatchIds_Inr(2) [OF a, of "''POSITION''"] by simp
  show ?thesis
  proof (cases "r ''POSITION''")
    case None
    with assignDracoProperties_absent [OF b None] p5 show ?thesis
      by (simp add: dracoSlots_POSITION)
  next
    case (Some dp)
    with p5 have "attributes pc5 ''POSITION'' \<noteq> None" by (simp add: dracoSlots_POSITION)
    with assignDracoProperties_mono [OF b] have
      "attributes pc1 ''POSITION'' = attributes pc5 ''POSITION''"
      by (auto simp: map_le_def dom_def)
    with p5 show ?thesis by (simp add: dracoSlots_POSITION)
  qed
qed

lemma assignDraco_globals:
  assumes "assignDracoDecodedAttributes ext DefaultPointCloud_new n r bt = Inr pc1"
  shows "globalPosition pc1 = None" and "globalColor pc1 = None"
proof -
  from assms obtain pc5 where
    a: "assignDracoBatchIds (dracoSlots ext n r) n r = Inr pc5" and
    b: "assignDracoProperties pc5 n r bt (obtainDracoPropertyNames bt) = Inr pc1"
    by (auto simp: assignDracoDecodedAttributes_Inr)
  from assignDracoProperties_globals [OF b] assignDracoBatchIds_Inr(3,4) [OF a]
  show "globalPosition pc1 = None" and "globalColor pc1 = None"
    by (simp_all add: dracoSlots_globals)
qed

lemma createDracoStep_Inr:
  "createDracoStep ext ft bin bt = Inr pc1 \<longleftrightarrow>
     (\<exists>d. obtainDracoDecodedAttributes ext ft bin bt = Inr d \<and>
          (case d of
             None \<Rightarrow> pc1 = DefaultPointCloud_new
           | Some r \<Rightarrow> assignDracoDecodedAttributes ext DefaultPointCloud_new
                        (POINTS_LENGTH ft) r bt = Inr pc1))"
  by (auto simp: createDracoStep_def bind_eq_Inr split: option.splits)

lemma obtainDracoDecodedAttributes_error:
  "obtainDracoDecodedAttributes ext ft bin bt = Inl e \<Longrightarrow> e = DracoError"
  by (auto simp: obtainDracoDecodedAttributes_def Let_def split: option.splits)

lemma createDracoStep_error:
  "createDracoStep ext ft bin bt = Inl e \<Longrightarrow>
   e = DracoError \<or> (\<exists>name. e = AttributeAlreadyPresent name)"
  by (auto simp: createDracoStep_def bind_eq_Inl split: option.splits
      dest: obtainDracoDecodedAttributes_error assignDracoDecodedAttributes_error)

lemma DefaultPointCloud_new_fields:
  "attributes DefaultPointCloud_new = Map.empty"
  "globalPosition DefaultPointCloud_new = None"
  "globalColor DefaultPointCloud_new = None"
  by (simp_all add: DefaultPointCloud_new_def)

lemma createDracoStep_globals:
  assumes "createDracoStep ext ft bin bt = Inr pc1"
  shows "globalPosition pc1 = None" and "globalColor pc1 = None"
  using assms
  by (auto simp: createDracoStep_Inr DefaultPointCloud_new_fields split: option.splits
      dest: assignDraco_globals)

lemma createDracoStep_POSITION:
  assumes "createDracoStep ext ft bin bt = Inr pc1"
    and "obtainDracoDecodedAttributes ext ft bin bt = Inr d"
  shows "attributes pc1 ''POSITION'' =
     (case d of
        None \<Rightarrow> None
      | Some r \<Rightarrow>
          map_option (\<lambda>dp. \<lparr>attributeType = ''VEC3'', attributeComponentType = ''FLOAT32'',
            attributeValues = NumericArrayIterable VEC3 FLOAT (attributeData dp)
              (attributeByteOffset dp) (POINTS_LENGTH ft)\<rparr>) (r ''POSITION''))"
  using assms
  by (auto simp: createDracoStep_Inr DefaultPointCloud_new_fields split: option.splits
      dest: assignDraco_POSITION)

subsection \<open>The positions\<close>

lemma create_attributes_from_positions:
  assumes "create ext ft bin bt = Inr pc"
  obtains pc1 pc2 where "createDracoStep ext ft bin bt = Inr pc1"
    and "createPositionsStep ext ft bin pc1 = Inr pc2"
    and "attributes pc ''POSITION'' = attributes pc2 ''POSITION''"
proof -
  from assms obtain pc1 pc2 pc5 pc6 where
    s1: "createDracoStep ext ft bin bt = Inr pc1" and
    s2: "createPositionsStep ext ft bin pc1 = Inr pc2" and
    s5: "createBatchIdsStep ft bin
          (createColorsStep ext ft bin (createNormalsStep ext ft bin pc2)) = Inr pc5" and
    s6: "createGlobalColorStep ext ft bin pc5 = Inr pc6" and
    s7: "createGlobalPositionStep ext ft bin pc6 = Inr pc"
    by (auto simp: create_Inr)
  have "attributes pc ''POSITION'' = attributes pc5 ''POSITION''"
    using createGlobalPositionStep_Inr(1) [OF s7] createGlobalColorStep_Inr(1) [OF s6] by simp
  also have "\<dots> = attributes (createColorsStep ext ft bin (createNormalsStep ext ft bin pc2))
      ''POSITION''"
    using createBatchIdsStep_Inr(2) [OF s5, of "''POSITION''"] by simp
  also have "\<dots> = attributes pc2 ''POSITION''"
    by (simp add: createColorsStep_attributes(2) createNormalsStep_attributes(2))
  finally show ?thesis using s1 s2 that by blast
qed

lemma createDequantization_zero_offset:
  "createDequantization [0, 0, 0] [sx, sy, sz] [a, b, c] =
     [a * (sx / 65535) + 0, b * (sy / 65535) + 0, c * (sz / 65535) + 0]"
  by (simp add: createDequantization_def)

lemma createDequantization_zero_offset_fun:
  "createDequantization [0, 0, 0] [sx, sy, sz] =
     (\<lambda>v. [v ! 0 * (sx / 65535) + 0, v ! 1 * (sy / 65535) + 0, v ! 2 * (sz / 65535) + 0])"
  by (simp add: createDequantization_def)

text \<open>
  C1. When the Draco result did not provide POSITION (there is no Draco extension, or its
  result has no POSITION): with POSITION in the feature table, whether or not
  POSITION_QUANTIZED is there too, the positions of the point cloud are the float VEC3
  elements of the binary at the declared byte offset; with POSITION_QUANTIZED only, both
  QUANTIZED_VOLUME_OFFSET and QUANTIZED_VOLUME_SCALE are present, and the positions are the
  unsigned short VEC3 elements at the declared byte offset, each mapped by the dequantization
  with the offset [0, 0, 0] and the volume scale: a component q becomes
  q * (scale / 65535) + 0.
\<close>

theorem create_positions_without_draco:
  assumes "create ext ft bin bt = Inr pc"
    and "obtainDracoDecodedAttributes ext ft bin bt = Inr d"
    and "case d of None \<Rightarrow> True | Some r \<Rightarrow> r ''POSITION'' = None"
  shows "(\<forall>p. POSITION ft = Some p \<longrightarrow>
            attributes pc ''POSITION'' =
              Some \<lparr>attributeType = ''VEC3'', attributeComponentType = ''FLOAT32'',
                    attributeValues = NumericArrayIterable VEC3 FLOAT bin (byteOffset p)
                      (POINTS_LENGTH ft)\<rparr>)
       \<and> (\<forall>q. POSITION ft = None \<and> POSITION_QUANTIZED ft = Some q \<longrightarrow>
            QUANTIZED_VOLUME_OFFSET ft \<noteq> None \<and> QUANTIZED_VOLUME_SCALE ft \<noteq> None \<and>
            (\<exists>qn. obtainQuantizationOffsetScale ext ft bin = Inr (Some qn) \<and>
               attributes pc ''POSITION'' =
                 Some \<lparr>attributeType = ''VEC3'', attributeComponentType = ''FLOAT32'',
                       attributeValues = IterablesMap
                         (NumericArrayIterable VEC3 UNSIGNED_SHORT bin (byteOffset q)
                            (POINTS_LENGTH ft))
                         (createDequantization [0, 0, 0] (scale qn))\<rparr>))
       \<and> createDequantization [0, 0, 0] [sx, sy, sz] [a, b, c] =
            [a * (sx / 65535) + 0, b * (sy / 65535) + 0, c * (sz / 65535) + 0]
       \<and> toList ext (IterablesMap (NumericArrayIterable VEC3 UNSIGNED_SHORT bin off n)
            (createDequantization [0, 0, 0] [sx, sy, sz])) =
            (case numericArrayValues ext VEC3 UNSIGNED_SHORT bin off n of
               None \<Rightarrow> Inl RangeError
             | Some vs \<Rightarrow>
                 Inr (map (\<lambda>v. [v ! 0 * (sx / 65535) + 0, v ! 1 * (sy / 65535) + 0,
                                 v ! 2 * (sz / 65535) + 0]) vs))"
proof -
  from assms(1) obtain pc1 pc2 where
    s1: "createDracoStep ext ft bin bt = Inr pc1" and
    s2: "createPositionsStep ext ft bin pc1 = Inr pc2" and
    eq: "attributes pc ''POSITION'' = attributes pc2 ''POSITION''"
    by (rule create_attributes_from_positions)
  from createDracoStep_POSITION [OF s1 assms(2)] assms(3)
  have absent: "attributes pc1 ''POSITION'' = None"
    by (auto split: option.splits)
  with s2 obtain positions where
    cp: "createPositions ext ft bin = Inr positions" and
    pc2: "pc2 = setPositions pc1 positions"
    by (auto simp: createPositionsStep_def bind_eq_Inr)
  from pc2 eq have stored: "attributes pc ''POSITION'' =
      Some \<lparr>attributeType = ''VEC3'', attributeComponentType = ''FLOAT32'',
            attributeValues = positions\<rparr>"
    by (simp add: setPositions_def)
  have raw: "\<forall>p. POSITION ft = Some p \<longrightarrow>
            attributes pc ''POSITION'' =
              Some \<lparr>attributeType = ''VEC3'', attributeComponentType = ''FLOAT32'',
                    attributeValues = NumericArrayIterable VEC3 FLOAT bin (byteOffset p)
                      (POINTS_LENGTH ft)\<rparr>"
    using cp stored by (auto simp: createPositions_def createPositionsInternal_def Let_def)
  have quantized: "\<forall>q. POSITION ft = None \<and> POSITION_QUANTIZED ft = Some q \<longrightarrow>
            QUANTIZED_VOLUME_OFFSET ft \<noteq> None \<and> QUANTIZED_VOLUME_SCALE ft \<noteq> None \<and>
            (\<exists>qn. obtainQuantizationOffsetScale ext ft bin = Inr (Some qn) \<and>
               attributes pc ''POSITION'' =
                 Some \<lparr>attributeType = ''VEC3'', attributeComponentType = ''FLOAT32'',
                       attributeValues = IterablesMap
                         (NumericArrayIterable VEC3 UNSIGNED_SHORT bin (byteOffset q)
                            (POINTS_LENGTH ft))
                         (createDequantization [0, 0, 0] (scale qn))\<rparr>)"
  proof (intro allI impI)
    fix q
    assume h: "POSITION ft = None \<and> POSITION_QUANTIZED ft = Some q"
    with cp obtain qn where
      qn: "obtainQuantizationOffsetScale ext ft bin = Inr (Some qn)" and
      pos: "positions = IterablesMap
              (NumericArrayIterable VEC3 UNSIGNED_SHORT bin (byteOffset q) (POINTS_LENGTH ft))
              (createDequantization [0, 0, 0] (scale qn))"
      by (auto simp: createPositions_def createQuantizedPositionsInternal_def Let_def
          bind_eq_Inr split: option.splits)
    from obtainQuantizationOffsetScale_Some [OF qn] qn pos stored
    show "QUANTIZED_VOLUME_OFFSET ft \<noteq> None \<and> QUANTIZED_VOLUME_SCALE ft \<noteq> None \<and>
            (\<exists>qn. obtainQuantizationOffsetScale ext ft bin = Inr (Some qn) \<and>
               attributes pc ''POSITION'' =
                 Some \<lparr>attributeType = ''VEC3'', attributeComponentType = ''FLOAT32'',
                       attributeValues = IterablesMap
                         (NumericArrayIterable VEC3 UNSIGNED_SHORT bin (byteOffset q)
                            (POINTS_LENGTH ft))
                         (createDequantization [0, 0, 0] (scale qn))\<rparr>)"
      by simp
  qed
  have iter: "toList ext (IterablesMap (NumericArrayIterable VEC3 UNSIGNED_SHORT bin off n)
            (createDequantization [0, 0, 0] [sx, sy, sz])) =
            (case numericArrayValues ext VEC3 UNSIGNED_SHORT bin off n of
               None \<Rightarrow> Inl RangeError
             | Some vs \<Rightarrow>
                 Inr (map (\<lambda>v. [v ! 0 * (sx / 65535) + 0, v ! 1 * (sy / 65535) + 0,
                                 v ! 2 * (sz / 65535) + 0]) vs))"
    by (simp add: createDequantization_zero_offset_fun split: option.splits)
  from raw quantized createDequantization_zero_offset [of sx sy sz a b c] iter
  show ?thesis by blast
qed

text \<open>The definitions that evaluate \<open>create\<close> on a concrete input.\<close>

lemmas create_defs =
  create_def createDracoStep_def createPositionsStep_def createNormalsStep_def
  createColorsStep_def createBatchIdsStep_def createGlobalColorStep_def
  createGlobalPositionStep_def obtainDracoDecodedAttributes_def createPositions_def
  createNormals_def createNormalizedLinearColors_def createBatchIds_def
  obtainBatchIdComponentType_def createGlobalNormalizedLinearColor_def
  obtainGlobalPosition_def obtainQuantizationOffsetScale_def obtainNumberArray_def
  obtainRtcCenter_def DefaultPointCloud_new_def setPositions_def setNormals_def
  setNormalizedLinearColors_def setNormalizedLinearGlobalColor_def setGlobalPosition_def
  addAttribute_def setAttribute_def getAttributeValues_def
  createPositionsInternal_def createQuantizedPositionsInternal_def createNormalsInternal_def
  createOctEncodedNormalsInternal_def createColorsStandardRGBInternal_def
  createColorsStandardRGBAInternal_def createColorsStandardRGB656Internal_def
  createBatchIdsInternal_def assignDracoDecodedAttributes_def assignDracoPositions_def
  assignDracoNormals_def assignDracoRGB_def assignDracoRGBA_def assignDracoBatchIds_def
  obtainDracoProperties_def obtainDracoPropertyNames_def subarray_def
  exampleExternals_def emptyFeatureTable_def emptyBatchTable_def

text \<open>
  A table with POSITION and POSITION_QUANTIZED and no volume: the positions are those of
  POSITION. A table with POSITION_QUANTIZED and the volume scale \<open>[2, 4, 10]\<close>: the
  quantized point \<open>[0, 65535, 13107]\<close> becomes \<open>[0, 4, 2]\<close>.
\<close>

theorem create_positions_without_draco_witness:
  "(case create exampleExternals
      (emptyFeatureTable\<lparr>POSITION := Some \<lparr>byteOffset = 4, componentType = None\<rparr>,
         POSITION_QUANTIZED := Some \<lparr>byteOffset = 0, componentType = None\<rparr>\<rparr>)
      [] emptyBatchTable of
      Inl e \<Rightarrow> False
    | Inr pc \<Rightarrow>
        attributes pc ''POSITION'' =
          Some \<lparr>attributeType = ''VEC3'', attributeComponentType = ''FLOAT32'',
                attributeValues = NumericArrayIterable VEC3 FLOAT [] 4 2\<rparr>)
   \<and> (case create exampleExternals
      (emptyFeatureTable\<lparr>POSITION_QUANTIZED := Some \<lparr>byteOffset = 0, componentType = None\<rparr>,
         QUANTIZED_VOLUME_OFFSET := Some (NumberArray [10, 20, 30]),
         QUANTIZED_VOLUME_SCALE := Some (NumberArray [2, 4, 10])\<rparr>)
      [] emptyBatchTable of
      Inl e \<Rightarrow> False
    | Inr pc \<Rightarrow>
        attributes pc ''POSITION'' =
          Some \<lparr>attributeType = ''VEC3'', attributeComponentType = ''FLOAT32'',
                attributeValues = IterablesMap (NumericArrayIterable VEC3 UNSIGNED_SHORT [] 0 2)
                  (createDequantization [0, 0, 0] [2, 4, 10])\<rparr>)
   \<and> toList exampleExternals (IterablesMap (NumericArrayIterable VEC3 UNSIGNED_SHORT [] 0 2)
        (createDequantization [0, 0, 0] [2, 4, 10])) = Inr [[0, 4, 2], [0, 4, 2]]"
proof -
  let ?e = exampleExternals
  let ?p = "emptyFeatureTable\<lparr>POSITION := Some \<lparr>byteOffset = 4, componentType = None\<rparr>,
         POSITION_QUANTIZED := Some \<lparr>byteOffset = 0, componentType = None\<rparr>\<rparr>"
  let ?q = "emptyFeatureTable\<lparr>POSITION_QUANTIZED := Some \<lparr>byteOffset = 0, componentType = None\<rparr>,
         QUANTIZED_VOLUME_OFFSET := Some (NumberArray [10, 20, 30]),
         QUANTIZED_VOLUME_SCALE := Some (NumberArray [2, 4, 10])\<rparr>"
  have "\<exists>pc. create ?e ?p [] emptyBatchTable = Inr pc"
    by (simp add: create_defs)
  then obtain pcp where cp: "create ?e ?p [] emptyBatchTable = Inr pcp" ..
  have dp: "obtainDracoDecodedAttributes ?e ?p [] emptyBatchTable = Inr None"
    by (simp add: obtainDracoDecodedAttributes_def emptyFeatureTable_def)
  have "\<exists>pc. create ?e ?q [] emptyBatchTable = Inr pc"
    by (simp add: create_defs)
  then obtain pcq where cq: "create ?e ?q [] emptyBatchTable = Inr pcq" ..
  have dq: "obtainDracoDecodedAttributes ?e ?q [] emptyBatchTable = Inr None"
    by (simp add: obtainDracoDecodedAttributes_def emptyFeatureTable_def)
  have qn: "obtainQuantizationOffsetScale ?e ?q [] =
      Inr (Some \<lparr>offset = [10, 20, 30], scale = [2, 4, 10]\<rparr>)"
    by (simp add: obtainQuantizationOffsetScale_def obtainNumberArray_def)
  have 1: "attributes pcp ''POSITION'' =
          Some \<lparr>attributeType = ''VEC3'', attributeComponentType = ''FLOAT32'',
                attributeValues = NumericArrayIterable VEC3 FLOAT [] 4 2\<rparr>"
    using create_positions_without_draco [OF cp dp] by (simp add: emptyFeatureTable_def)
  have 2: "attributes pcq ''POSITION'' =
          Some \<lparr>attributeType = ''VEC3'', attributeComponentType = ''FLOAT32'',
                attributeValues = IterablesMap (NumericArrayIterable VEC3 UNSIGNED_SHORT [] 0 2)
                  (createDequantization [0, 0, 0] [2, 4, 10])\<rparr>"
    using create_positions_without_draco [OF cq dq] qn by (simp add: emptyFeatureTable_def)
  have 3: "toList ?e (IterablesMap (NumericArrayIterable VEC3 UNSIGNED_SHORT [] 0 2)
        (createDequantization [0, 0, 0] [2, 4, 10])) = Inr [[0, 4, 2], [0, 4, 2]]"
    using create_positions_without_draco [OF cq dq, where sx = 2 and sy = 4 and sz = 10
        and off = 0 and n = 2]
    by (simp add: exampleExternals_def numeral_2_eq_2)
  from cp cq 1 2 3 show ?thesis by simp
qed

subsection \<open>The fields of the feature table that each step reads\<close>

lemma createDracoStep_cong:
  "extensions ft = extensions ft' \<Longrightarrow> POINTS_LENGTH ft = POINTS_LENGTH ft' \<Longrightarrow>
   createDracoStep ext ft bin bt = createDracoStep ext ft' bin bt"
  by (simp add: createDracoStep_def obtainDracoDecodedAttributes_def cong: option.case_cong)

lemma obtainDracoDecodedAttributes_cong:
  "extensions ft = extensions ft' \<Longrightarrow>
   obtainDracoDecodedAttributes ext ft bin bt = obtainDracoDecodedAttributes ext ft' bin bt"
  by (simp add: obtainDracoDecodedAttributes_def)

lemma createPositionsStep_present:
  "attributes pc ''POSITION'' \<noteq> None \<Longrightarrow> createPositionsStep ext ft bin pc = Inr pc"
  by (auto simp: createPositionsStep_def)

lemma createNormalsStep_cong:
  "POINTS_LENGTH ft = POINTS_LENGTH ft' \<Longrightarrow> NORMAL ft = NORMAL ft' \<Longrightarrow>
   NORMAL_OCT16P ft = NORMAL_OCT16P ft' \<Longrightarrow>
   createNormalsStep ext ft bin pc = createNormalsStep ext ft' bin pc"
  by (simp add: createNormalsStep_def createNormals_def cong: option.case_cong)

lemma createNormalizedLinearColors_cong:
  "POINTS_LENGTH ft = POINTS_LENGTH ft' \<Longrightarrow> RGBA ft = RGBA ft' \<Longrightarrow>
   RGB ft = RGB ft' \<Longrightarrow> RGB565 ft = RGB565 ft' \<Longrightarrow>
   createNormalizedLinearColors ext ft bin = createNormalizedLinearColors ext ft' bin"
  by (simp add: createNormalizedLinearColors_def cong: option.case_cong)

lemma createColorsStep_cong:
  "createNormalizedLinearColors ext ft bin = createNormalizedLinearColors ext ft' bin \<Longrightarrow>
   createColorsStep ext ft bin pc = createColorsStep ext ft' bin pc"
  by (simp add: createColorsStep_def)

lemma createBatchIdsStep_cong:
  "POINTS_LENGTH ft = POINTS_LENGTH ft' \<Longrightarrow> BATCH_ID ft = BATCH_ID ft' \<Longrightarrow>
   BATCH_LENGTH ft = BATCH_LENGTH ft' \<Longrightarrow>
   createBatchIdsStep ft bin pc = createBatchIdsStep ft' bin pc"
  by (simp add: createBatchIdsStep_def createBatchIds_def obtainBatchIdComponentType_def
      cong: option.case_cong)

lemma createGlobalColorStep_cong:
  "CONSTANT_RGBA ft = CONSTANT_RGBA ft' \<Longrightarrow>
   createGlobalColorStep ext ft bin pc = createGlobalColorStep ext ft' bin pc"
  by (simp add: createGlobalColorStep_def createGlobalNormalizedLinearColor_def)

lemma createGlobalPositionStep_cong:
  "RTC_CENTER ft = RTC_CENTER ft' \<Longrightarrow>
   QUANTIZED_VOLUME_OFFSET ft = QUANTIZED_VOLUME_OFFSET ft' \<Longrightarrow>
   QUANTIZED_VOLUME_SCALE ft = QUANTIZED_VOLUME_SCALE ft' \<Longrightarrow>
   createGlobalPositionStep ext ft bin pc = createGlobalPositionStep ext ft' bin pc"
  by (simp add: createGlobalPositionStep_def obtainGlobalPosition_cong [of ft ft'])

text \<open>
  C3. When the Draco result contains POSITION, the positions of the returned point cloud
  are the float VEC3 elements of the Draco-decoded data, and the whole result of \<open>create\<close>
  is the same whatever the fields POSITION and POSITION_QUANTIZED of the feature table are.
\<close>

theorem create_positions_from_draco:
  assumes "obtainDracoDecodedAttributes ext ft bin bt = Inr (Some r)"
    and "r ''POSITION'' = Some dp"
  shows "(\<forall>pc. create ext ft bin bt = Inr pc \<longrightarrow>
            attributes pc ''POSITION'' =
              Some \<lparr>attributeType = ''VEC3'', attributeComponentType = ''FLOAT32'',
                    attributeValues = NumericArrayIterable VEC3 FLOAT (attributeData dp)
                      (attributeByteOffset dp) (POINTS_LENGTH ft)\<rparr>)
       \<and> create ext (ft\<lparr>POSITION := p, POSITION_QUANTIZED := pq\<rparr>) bin bt
           = create ext ft bin bt"
proof -
  let ?ft = "ft\<lparr>POSITION := p, POSITION_QUANTIZED := pq\<rparr>"
  have stored: "attributes pc1 ''POSITION'' =
      Some \<lparr>attributeType = ''VEC3'', attributeComponentType = ''FLOAT32'',
            attributeValues = NumericArrayIterable VEC3 FLOAT (attributeData dp)
              (attributeByteOffset dp) (POINTS_LENGTH ft)\<rparr>"
    if "createDracoStep ext ft bin bt = Inr pc1" for pc1
    using createDracoStep_POSITION [OF that assms(1)] assms(2) by simp
  have first: "\<forall>pc. create ext ft bin bt = Inr pc \<longrightarrow>
            attributes pc ''POSITION'' =
              Some \<lparr>attributeType = ''VEC3'', attributeComponentType = ''FLOAT32'',
                    attributeValues = NumericArrayIterable VEC3 FLOAT (attributeData dp)
                      (attributeByteOffset dp) (POINTS_LENGTH ft)\<rparr>"
  proof (intro allI impI)
    fix pc
    assume "create ext ft bin bt = Inr pc"
    then obtain pc1 pc2 where
      s1: "createDracoStep ext ft bin bt = Inr pc1" and
      s2: "createPositionsStep ext ft bin pc1 = Inr pc2" and
      eq: "attributes pc ''POSITION'' = attributes pc2 ''POSITION''"
      by (rule create_attributes_from_positions)
    from stored [OF s1] have "attributes pc1 ''POSITION'' \<noteq> None" by simp
    from createPositionsStep_present [OF this, of ext ft bin] s2 have "pc2 = pc1" by simp
    with eq stored [OF s1] show "attributes pc ''POSITION'' =
              Some \<lparr>attributeType = ''VEC3'', attributeComponentType = ''FLOAT32'',
                    attributeValues = NumericArrayIterable VEC3 FLOAT (attributeData dp)
                      (attributeByteOffset dp) (POINTS_LENGTH ft)\<rparr>"
      by simp
  qed
  have d: "createDracoStep ext ?ft bin bt = createDracoStep ext ft bin bt"
    by (rule createDracoStep_cong) simp_all
  have second: "create ext ?ft bin bt = create ext ft bin bt"
  proof (cases "createDracoStep ext ft bin bt")
    case (Inl e)
    with d show ?thesis by (simp add: create_def)
  next
    case (Inr pc1)
    from stored [OF Inr] have present: "attributes pc1 ''POSITION'' \<noteq> None" by simp
    have n: "createNormalsStep ext ?ft bin pc1 = createNormalsStep ext ft bin pc1"
      by (rule createNormalsStep_cong) simp_all
    have c: "createColorsStep ext ?ft bin pc = createColorsStep ext ft bin pc" for pc
      by (rule createColorsStep_cong, rule createNormalizedLinearColors_cong) simp_all
    have b: "createBatchIdsStep ?ft bin pc = createBatchIdsStep ft bin pc" for pc
      by (rule createBatchIdsStep_cong) simp_all
    have g: "createGlobalColorStep ext ?ft bin pc = createGlobalColorStep ext ft bin pc" for pc
      by (rule createGlobalColorStep_cong) simp
    have gp: "createGlobalPositionStep ext ?ft bin pc = createGlobalPositionStep ext ft bin pc"
      for pc
      by (rule createGlobalPositionStep_cong) simp_all
    show ?thesis
      by (simp add: create_def d Inr createPositionsStep_present [OF present] n c b g gp)
  qed
  from first second show ?thesis by blast
qed

lemmas example_draco_defs =
  exampleDracoResult_def exampleDracoExternals_def exampleDracoFeatureTable_def
  exampleDracoBatchTable_def

lemma exampleDraco_obtain:
  "obtainDracoDecodedAttributes exampleDracoExternals
     (exampleDracoFeatureTable\<lparr>POSITION := p, POSITION_QUANTIZED := pq\<rparr>) []
     exampleDracoBatchTable = Inr (Some exampleDracoResult)"
  by (simp add: obtainDracoDecodedAttributes_def exampleDracoExternals_def
      exampleDracoFeatureTable_def emptyFeatureTable_def exampleExternals_def)

lemma exampleDraco_create_succeeds:
  "\<exists>pc. create exampleDracoExternals exampleDracoFeatureTable [] exampleDracoBatchTable = Inr pc"
  by (simp add: create_defs example_draco_defs)

text \<open>
  On the example tile the positions are those of the Draco result, with or without
  POSITION and POSITION_QUANTIZED in the feature table.
\<close>

theorem create_positions_from_draco_witness:
  "(case create exampleDracoExternals exampleDracoFeatureTable [] exampleDracoBatchTable of
      Inl e \<Rightarrow> False
    | Inr pc \<Rightarrow>
        attributes pc ''POSITION'' =
          Some \<lparr>attributeType = ''VEC3'', attributeComponentType = ''FLOAT32'',
                attributeValues = NumericArrayIterable VEC3 FLOAT [1] 0 2\<rparr>)
   \<and> create exampleDracoExternals
       (exampleDracoFeatureTable\<lparr>POSITION := Some \<lparr>byteOffset = 4, componentType = None\<rparr>,
          POSITION_QUANTIZED := Some \<lparr>byteOffset = 8, componentType = None\<rparr>\<rparr>)
       [] exampleDracoBatchTable
     = create exampleDracoExternals exampleDracoFeatureTable [] exampleDracoBatchTable"
proof -
  let ?ft = "exampleDracoFeatureTable\<lparr>POSITION := None, POSITION_QUANTIZED := None\<rparr>"
  have ft: "?ft = exampleDracoFeatureTable"
    by (simp add: exampleDracoFeatureTable_def emptyFeatureTable_def)
  have d: "obtainDracoDecodedAttributes exampleDracoExternals exampleDracoFeatureTable []
     exampleDracoBatchTable = Inr (Some exampleDracoResult)"
    using exampleDraco_obtain [of None None] by (simp only: ft)
  have r: "exampleDracoResult ''POSITION'' =
      Some \<lparr>attributeData = [1], attributeByteOffset = 0, componentDatatype = FLOAT\<rparr>"
    by (simp add: exampleDracoResult_def)
  from exampleDraco_create_succeeds obtain pc where
    c: "create exampleDracoExternals exampleDracoFeatureTable [] exampleDracoBatchTable = Inr pc"
    ..
  from create_positions_from_draco [OF d r] c
  have 1: "attributes pc ''POSITION'' =
          Some \<lparr>attributeType = ''VEC3'', attributeComponentType = ''FLOAT32'',
                attributeValues = NumericArrayIterable VEC3 FLOAT [1] 0 2\<rparr>"
    by (simp add: exampleDracoFeatureTable_def emptyFeatureTable_def)
  from create_positions_from_draco [OF d r]
  have 2: "create exampleDracoExternals
       (exampleDracoFeatureTable\<lparr>POSITION := Some \<lparr>byteOffset = 4, componentType = None\<rparr>,
          POSITION_QUANTIZED := Some \<lparr>byteOffset = 8, componentType = None\<rparr>\<rparr>)
       [] exampleDracoBatchTable
     = create exampleDracoExternals exampleDracoFeatureTable [] exampleDracoBatchTable"
    by blast
  from c 1 2 show ?thesis by simp
qed

subsection \<open>The errors of create\<close>

lemma createPositions_format_error:
  "(\<exists>m. createPositions ext ft bin = Inl (TileFormatError m)) \<longleftrightarrow>
     POSITION ft = None \<and>
     (POSITION_QUANTIZED ft = None \<or> QUANTIZED_VOLUME_OFFSET ft = None \<or>
      QUANTIZED_VOLUME_SCALE ft = None)"
proof (cases "POSITION ft")
  case (Some p)
  then show ?thesis by (simp add: createPositions_def)
next
  case None
  note pos = None
  show ?thesis
  proof (cases "POSITION_QUANTIZED ft")
    case None
    with pos show ?thesis by (simp add: createPositions_def)
  next
    case (Some q)
    show ?thesis
    proof (cases "QUANTIZED_VOLUME_OFFSET ft = None \<or> QUANTIZED_VOLUME_SCALE ft = None")
      case True
      from obtainQuantizationOffsetScale_absent [OF True] pos Some True show ?thesis
        by (simp add: createPositions_def)
    next
      case False
      have "createPositions ext ft bin \<noteq> Inl (TileFormatError m)" for m
      proof (cases "obtainQuantizationOffsetScale ext ft bin")
        case (Inl e)
        with obtainQuantizationOffsetScale_not_format [of ext ft bin m] pos Some
        show ?thesis by (auto simp: createPositions_def)
      next
        case (Inr qn)
        with False have "qn \<noteq> None"
          by (auto simp: obtainQuantizationOffsetScale_def bind_eq_Inr split: option.splits)
        with Inr pos Some show ?thesis
          by (auto simp: createPositions_def Let_def)
      qed
      with False pos Some show ?thesis by simp
    qed
  qed
qed

lemma createPositionsStep_Inl:
  "createPositionsStep ext ft bin pc = Inl e \<longleftrightarrow>
     attributes pc ''POSITION'' = None \<and> createPositions ext ft bin = Inl e"
  by (auto simp: createPositionsStep_def bind_eq_Inl)

lemma createBatchIdsStep_Inl:
  "createBatchIdsStep ft bin pc = Inl e \<longleftrightarrow>
     attributes pc ''_FEATURE_ID_0'' = None \<and> BATCH_ID ft \<noteq> None \<and> BATCH_LENGTH ft = None \<and>
     e = TileFormatError ''Found BATCH_ID but no BATCH_LENGTH''"
  by (auto simp: createBatchIdsStep_def createBatchIds_def obtainBatchIdComponentType_def
      Let_def addAttribute_def split: option.splits)

lemma obtainNumberArray_error:
  "obtainNumberArray ext bin property len name = Inl e \<Longrightarrow> e = RangeError"
  by (auto simp: obtainNumberArray_def split: number_array_property.splits option.splits)

lemma obtainQuantizationOffsetScale_error:
  "obtainQuantizationOffsetScale ext ft bin = Inl e \<Longrightarrow> e = RangeError"
  by (auto simp: obtainQuantizationOffsetScale_def bind_eq_Inl split: option.splits
      dest: obtainNumberArray_error)

lemma createGlobalColorStep_error:
  "createGlobalColorStep ext ft bin pc = Inl e \<Longrightarrow> e = RangeError"
  by (auto simp: createGlobalColorStep_def createGlobalNormalizedLinearColor_def bind_eq_Inl
      Let_def split: if_splits option.splits dest: obtainNumberArray_error)

lemma createGlobalPositionStep_error:
  "createGlobalPositionStep ext ft bin pc = Inl e \<Longrightarrow> e = RangeError"
  by (auto simp: createGlobalPositionStep_def obtainGlobalPosition_def obtainRtcCenter_def
      bind_eq_Inl Let_def split: option.splits
      dest: obtainNumberArray_error obtainQuantizationOffsetScale_error)

lemma create_Inl:
  "create ext ft bin bt = Inl e \<longleftrightarrow>
     createDracoStep ext ft bin bt = Inl e \<or>
     (\<exists>pc1. createDracoStep ext ft bin bt = Inr pc1 \<and>
        (createPositionsStep ext ft bin pc1 = Inl e \<or>
         (\<exists>pc2. createPositionsStep ext ft bin pc1 = Inr pc2 \<and>
            (createBatchIdsStep ft bin
               (createColorsStep ext ft bin (createNormalsStep ext ft bin pc2)) = Inl e \<or>
             (\<exists>pc5. createBatchIdsStep ft bin
                 (createColorsStep ext ft bin (createNormalsStep ext ft bin pc2)) = Inr pc5 \<and>
                (createGlobalColorStep ext ft bin pc5 = Inl e \<or>
                 (\<exists>pc6. createGlobalColorStep ext ft bin pc5 = Inr pc6 \<and>
                    createGlobalPositionStep ext ft bin pc6 = Inl e)))))))"
  by (simp add: create_def bind_eq_Inl)

lemma feature_id_before_batch_step:
  assumes "createPositionsStep ext ft bin pc1 = Inr pc2"
  shows "attributes (createColorsStep ext ft bin (createNormalsStep ext ft bin pc2))
           ''_FEATURE_ID_0'' = attributes pc1 ''_FEATURE_ID_0''"
  using createPositionsStep_Inr(2) [OF assms, of "''_FEATURE_ID_0''"]
  by (simp add: createColorsStep_attributes(2) createNormalsStep_attributes(2))

text \<open>
  C2, as amended. \<open>create\<close> raises a \<open>TileFormatError\<close> exactly when the Draco step has
  succeeded and either (a) the Draco step has stored no POSITION, the feature table has no
  POSITION, and POSITION_QUANTIZED is absent or comes without both QUANTIZED_VOLUME_OFFSET
  and QUANTIZED_VOLUME_SCALE; or (b) the positions have been stored without error, the
  Draco step has stored no \<open>_FEATURE_ID_0\<close>, and the feature table has BATCH_ID but no
  BATCH_LENGTH. The Draco step stores POSITION exactly when the Draco result has it. In
  each case one of the three conditions of the claim holds. An error is the whole result:
  no point cloud is returned with it.
\<close>

theorem create_format_error:
  "((\<exists>m. create ext ft bin bt = Inl (TileFormatError m)) \<longleftrightarrow>
      (\<exists>pc1. createDracoStep ext ft bin bt = Inr pc1 \<and>
         (attributes pc1 ''POSITION'' = None \<and> POSITION ft = None \<and>
            (POSITION_QUANTIZED ft = None \<or> QUANTIZED_VOLUME_OFFSET ft = None \<or>
             QUANTIZED_VOLUME_SCALE ft = None)
          \<or> (\<exists>pc2. createPositionsStep ext ft bin pc1 = Inr pc2) \<and>
            attributes pc1 ''_FEATURE_ID_0'' = None \<and>
            BATCH_ID ft \<noteq> None \<and> BATCH_LENGTH ft = None)))
   \<and> (createDracoStep ext ft bin bt = Inr pc \<and>
      obtainDracoDecodedAttributes ext ft bin bt = Inr d \<longrightarrow>
        (attributes pc ''POSITION'' = None \<longleftrightarrow>
           (case d of None \<Rightarrow> True | Some r \<Rightarrow> r ''POSITION'' = None)))
   \<and> (create ext ft bin bt = Inl (TileFormatError m') \<longrightarrow>
        POSITION_QUANTIZED ft \<noteq> None \<and>
          (QUANTIZED_VOLUME_OFFSET ft = None \<or> QUANTIZED_VOLUME_SCALE ft = None)
        \<or> BATCH_ID ft \<noteq> None \<and> BATCH_LENGTH ft = None
        \<or> POSITION ft = None \<and> POSITION_QUANTIZED ft = None)"
proof -
  let ?A = "\<lambda>pc1. attributes pc1 ''POSITION'' = None \<and> POSITION ft = None \<and>
            (POSITION_QUANTIZED ft = None \<or> QUANTIZED_VOLUME_OFFSET ft = None \<or>
             QUANTIZED_VOLUME_SCALE ft = None)"
  let ?B = "\<lambda>pc1. (\<exists>pc2. createPositionsStep ext ft bin pc1 = Inr pc2) \<and>
            attributes pc1 ''_FEATURE_ID_0'' = None \<and>
            BATCH_ID ft \<noteq> None \<and> BATCH_LENGTH ft = None"
  have forward: "\<exists>pc1. createDracoStep ext ft bin bt = Inr pc1 \<and> (?A pc1 \<or> ?B pc1)"
    if err: "create ext ft bin bt = Inl (TileFormatError m)" for m
  proof -
    from err [unfolded create_Inl] consider
      (draco) "createDracoStep ext ft bin bt = Inl (TileFormatError m)"
    | (positions) pc1 where "createDracoStep ext ft bin bt = Inr pc1"
        "createPositionsStep ext ft bin pc1 = Inl (TileFormatError m)"
    | (batch) pc1 pc2 where "createDracoStep ext ft bin bt = Inr pc1"
        "createPositionsStep ext ft bin pc1 = Inr pc2"
        "createBatchIdsStep ft bin
           (createColorsStep ext ft bin (createNormalsStep ext ft bin pc2))
         = Inl (TileFormatError m)"
    | (color) pc5 where "createGlobalColorStep ext ft bin pc5 = Inl (TileFormatError m)"
    | (position) pc6 where "createGlobalPositionStep ext ft bin pc6 = Inl (TileFormatError m)"
      by blast
    then show ?thesis
    proof cases
      case draco
      from createDracoStep_error [OF this] show ?thesis by auto
    next
      case positions
      from positions(2) have "attributes pc1 ''POSITION'' = None"
        and "\<exists>m. createPositions ext ft bin = Inl (TileFormatError m)"
        by (auto simp: createPositionsStep_Inl)
      with positions(1) show ?thesis by (auto simp: createPositions_format_error)
    next
      case batch
      from batch(3) feature_id_before_batch_step [OF batch(2)]
      have "attributes pc1 ''_FEATURE_ID_0'' = None \<and> BATCH_ID ft \<noteq> None \<and>
          BATCH_LENGTH ft = None"
        by (simp add: createBatchIdsStep_Inl)
      with batch(1,2) show ?thesis by blast
    next
      case color
      from createGlobalColorStep_error [OF this] show ?thesis by simp
    next
      case position
      from createGlobalPositionStep_error [OF this] show ?thesis by simp
    qed
  qed
  have backward: "\<exists>m. create ext ft bin bt = Inl (TileFormatError m)"
    if s1: "createDracoStep ext ft bin bt = Inr pc1" and ab: "?A pc1 \<or> ?B pc1" for pc1
  proof -
    from ab show ?thesis
    proof
      assume a: "?A pc1"
      then obtain m where "createPositions ext ft bin = Inl (TileFormatError m)"
        using createPositions_format_error [of ext ft bin] by blast
      with a have "createPositionsStep ext ft bin pc1 = Inl (TileFormatError m)"
        by (simp add: createPositionsStep_Inl)
      with s1 have "create ext ft bin bt = Inl (TileFormatError m)"
        by (simp add: create_def)
      then show ?thesis ..
    next
      assume b: "?B pc1"
      then obtain pc2 where s2: "createPositionsStep ext ft bin pc1 = Inr pc2" by blast
      from b feature_id_before_batch_step [OF s2]
      have "createBatchIdsStep ft bin
           (createColorsStep ext ft bin (createNormalsStep ext ft bin pc2))
         = Inl (TileFormatError ''Found BATCH_ID but no BATCH_LENGTH'')"
        by (simp add: createBatchIdsStep_Inl)
      with s1 s2 have "create ext ft bin bt =
          Inl (TileFormatError ''Found BATCH_ID but no BATCH_LENGTH'')"
        by (simp add: create_def)
      then show ?thesis ..
    qed
  qed
  have exact: "(\<exists>m. create ext ft bin bt = Inl (TileFormatError m)) \<longleftrightarrow>
      (\<exists>pc1. createDracoStep ext ft bin bt = Inr pc1 \<and> (?A pc1 \<or> ?B pc1))"
    using forward backward by blast
  have draco: "createDracoStep ext ft bin bt = Inr pc \<and>
      obtainDracoDecodedAttributes ext ft bin bt = Inr d \<longrightarrow>
        (attributes pc ''POSITION'' = None \<longleftrightarrow>
           (case d of None \<Rightarrow> True | Some r \<Rightarrow> r ''POSITION'' = None))"
    by (auto simp: createDracoStep_POSITION split: option.splits)
  have only: "create ext ft bin bt = Inl (TileFormatError m') \<longrightarrow>
        POSITION_QUANTIZED ft \<noteq> None \<and>
          (QUANTIZED_VOLUME_OFFSET ft = None \<or> QUANTIZED_VOLUME_SCALE ft = None)
        \<or> BATCH_ID ft \<noteq> None \<and> BATCH_LENGTH ft = None
        \<or> POSITION ft = None \<and> POSITION_QUANTIZED ft = None"
    using forward [of m'] by auto
  from exact draco only show ?thesis by blast
qed

text \<open>
  The claim as stated fails: a table with POSITION and with POSITION_QUANTIZED but without
  QUANTIZED_VOLUME_OFFSET and QUANTIZED_VOLUME_SCALE is decoded without error (POSITION
  wins), and so is a table with neither POSITION nor POSITION_QUANTIZED whose positions
  come from Draco.
\<close>

theorem create_format_error_counterexample:
  "create exampleExternals
     (emptyFeatureTable\<lparr>POSITION := Some \<lparr>byteOffset = 4, componentType = None\<rparr>,
        POSITION_QUANTIZED := Some \<lparr>byteOffset = 0, componentType = None\<rparr>\<rparr>)
     [] emptyBatchTable
   = Inr \<lparr>attributes = [''POSITION'' \<mapsto>
            \<lparr>attributeType = ''VEC3'', attributeComponentType = ''FLOAT32'',
             attributeValues = NumericArrayIterable VEC3 FLOAT [] 4 2\<rparr>],
          globalPosition = None, globalColor = None\<rparr>
   \<and> QUANTIZED_VOLUME_OFFSET
       (emptyFeatureTable\<lparr>POSITION := Some \<lparr>byteOffset = 4, componentType = None\<rparr>,
          POSITION_QUANTIZED := Some \<lparr>byteOffset = 0, componentType = None\<rparr>\<rparr>) = None
   \<and> POSITION exampleDracoFeatureTable = None
   \<and> POSITION_QUANTIZED exampleDracoFeatureTable = None
   \<and> \<not> isl (create exampleDracoExternals exampleDracoFeatureTable [] exampleDracoBatchTable)"
  by (simp add: create_defs example_draco_defs)

text \<open>
  Three tables that raise the error: neither POSITION nor POSITION_QUANTIZED and no Draco
  extension; POSITION_QUANTIZED without the volume; POSITION, and BATCH_ID without
  BATCH_LENGTH.
\<close>

theorem create_format_error_witness:
  "(\<exists>m. create exampleExternals emptyFeatureTable [] emptyBatchTable
      = Inl (TileFormatError m))
   \<and> (\<exists>m. create exampleExternals
      (emptyFeatureTable\<lparr>POSITION_QUANTIZED := Some \<lparr>byteOffset = 0, componentType = None\<rparr>\<rparr>)
      [] emptyBatchTable = Inl (TileFormatError m))
   \<and> (\<exists>m. create exampleExternals
      (emptyFeatureTable\<lparr>POSITION := Some \<lparr>byteOffset = 0, componentType = None\<rparr>,
         BATCH_ID := Some \<lparr>byteOffset = 24, componentType = None\<rparr>\<rparr>)
      [] emptyBatchTable = Inl (TileFormatError m))"
proof -
  let ?e = exampleExternals
  let ?q = "emptyFeatureTable\<lparr>POSITION_QUANTIZED := Some \<lparr>byteOffset = 0, componentType = None\<rparr>\<rparr>"
  let ?b = "emptyFeatureTable\<lparr>POSITION := Some \<lparr>byteOffset = 0, componentType = None\<rparr>,
         BATCH_ID := Some \<lparr>byteOffset = 24, componentType = None\<rparr>\<rparr>"
  have d: "createDracoStep ?e ft [] emptyBatchTable = Inr DefaultPointCloud_new"
    if "extensions ft = None" for ft
    using that by (simp add: createDracoStep_def obtainDracoDecodedAttributes_def)
  have 1: "\<exists>m. create ?e emptyFeatureTable [] emptyBatchTable = Inl (TileFormatError m)"
    using create_format_error [where ext = ?e and ft = emptyFeatureTable and bin = "[]"
        and bt = emptyBatchTable, THEN conjunct1, THEN iffD2] d [of emptyFeatureTable]
    by (simp add: emptyFeatureTable_def DefaultPointCloud_new_fields)
  have 2: "\<exists>m. create ?e ?q [] emptyBatchTable = Inl (TileFormatError m)"
    using create_format_error [where ext = ?e and ft = ?q and bin = "[]"
        and bt = emptyBatchTable, THEN conjunct1, THEN iffD2] d [of ?q]
    by (simp add: emptyFeatureTable_def DefaultPointCloud_new_fields)
  have p: "\<exists>pc2. createPositionsStep ?e ?b [] DefaultPointCloud_new = Inr pc2"
    by (simp add: createPositionsStep_def createPositions_def emptyFeatureTable_def)
  have 3: "\<exists>m. create ?e ?b [] emptyBatchTable = Inl (TileFormatError m)"
    using create_format_error [where ext = ?e and ft = ?b and bin = "[]"
        and bt = emptyBatchTable, THEN conjunct1, THEN iffD2] d [of ?b] p
    by (simp add: emptyFeatureTable_def DefaultPointCloud_new_fields)
  from 1 2 3 show ?thesis by blast
qed

subsection \<open>The chain of point clouds of a successful call\<close>

lemma create_InrE:
  assumes "create ext ft bin bt = Inr pc"
  obtains pc1 pc2 pc3 pc4 pc5 pc6 where
    "createDracoStep ext ft bin bt = Inr pc1"
    "createPositionsStep ext ft bin pc1 = Inr pc2"
    "pc3 = createNormalsStep ext ft bin pc2"
    "pc4 = createColorsStep ext ft bin pc3"
    "createBatchIdsStep ft bin pc4 = Inr pc5"
    "createGlobalColorStep ext ft bin pc5 = Inr pc6"
    "createGlobalPositionStep ext ft bin pc6 = Inr pc"
  using assms by (auto simp: create_Inr)

lemma createPositions_cong:
  "POINTS_LENGTH ft = POINTS_LENGTH ft' \<Longrightarrow> POSITION ft = POSITION ft' \<Longrightarrow>
   POSITION_QUANTIZED ft = POSITION_QUANTIZED ft' \<Longrightarrow>
   QUANTIZED_VOLUME_OFFSET ft = QUANTIZED_VOLUME_OFFSET ft' \<Longrightarrow>
   QUANTIZED_VOLUME_SCALE ft = QUANTIZED_VOLUME_SCALE ft' \<Longrightarrow>
   createPositions ext ft bin = createPositions ext ft' bin"
  by (simp add: createPositions_def obtainQuantizationOffsetScale_cong [of ft ft']
      cong: option.case_cong)

lemma createPositionsStep_cong:
  "createPositions ext ft bin = createPositions ext ft' bin \<Longrightarrow>
   createPositionsStep ext ft bin pc = createPositionsStep ext ft' bin pc"
  by (simp add: createPositionsStep_def)

text \<open>
  Two feature tables that agree on what the steps read give the same result. The colours
  and the global colour are compared by the functions that read them, since which fields
  these read depends on the table.
\<close>

lemma create_cong:
  assumes "extensions ft = extensions ft'" "POINTS_LENGTH ft = POINTS_LENGTH ft'"
    and "POSITION ft = POSITION ft'" "POSITION_QUANTIZED ft = POSITION_QUANTIZED ft'"
    and "QUANTIZED_VOLUME_OFFSET ft = QUANTIZED_VOLUME_OFFSET ft'"
    and "QUANTIZED_VOLUME_SCALE ft = QUANTIZED_VOLUME_SCALE ft'"
    and "NORMAL ft = NORMAL ft'" "NORMAL_OCT16P ft = NORMAL_OCT16P ft'"
    and "createNormalizedLinearColors ext ft bin = createNormalizedLinearColors ext ft' bin"
    and "BATCH_ID ft = BATCH_ID ft'" "BATCH_LENGTH ft = BATCH_LENGTH ft'"
    and "\<And>pc. createGlobalColorStep ext ft bin pc = createGlobalColorStep ext ft' bin pc"
    and "RTC_CENTER ft = RTC_CENTER ft'"
  shows "create ext ft bin bt = create ext ft' bin bt"
proof -
  have d: "createDracoStep ext ft bin bt = createDracoStep ext ft' bin bt"
    using assms by (intro createDracoStep_cong)
  have p: "createPositionsStep ext ft bin pc = createPositionsStep ext ft' bin pc" for pc
    using assms by (intro createPositionsStep_cong createPositions_cong)
  have n: "createNormalsStep ext ft bin pc = createNormalsStep ext ft' bin pc" for pc
    using assms by (intro createNormalsStep_cong)
  have c: "createColorsStep ext ft bin pc = createColorsStep ext ft' bin pc" for pc
    using assms by (intro createColorsStep_cong)
  have b: "createBatchIdsStep ft bin pc = createBatchIdsStep ft' bin pc" for pc
    using assms by (intro createBatchIdsStep_cong)
  have g: "createGlobalPositionStep ext ft bin pc = createGlobalPositionStep ext ft' bin pc"
    for pc
    using assms by (intro createGlobalPositionStep_cong)
  show ?thesis
    by (simp add: create_def d p n c b g assms(12))
qed

subsection \<open>The colours\<close>

lemma createNormalizedLinearColors_RGBA:
  "RGBA ft \<noteq> None \<Longrightarrow>
   createNormalizedLinearColors ext (ft\<lparr>RGB := x, RGB565 := y\<rparr>) bin
     = createNormalizedLinearColors ext ft bin"
  by (auto simp: createNormalizedLinearColors_def)

lemma createNormalizedLinearColors_RGB:
  "RGB ft \<noteq> None \<Longrightarrow>
   createNormalizedLinearColors ext (ft\<lparr>RGB565 := y\<rparr>) bin
     = createNormalizedLinearColors ext ft bin"
  by (cases "RGBA ft"; cases "RGB ft") (simp_all add: createNormalizedLinearColors_def)

lemma create_COLOR_0:
  assumes "create ext ft bin bt = Inr pc"
    and "createDracoStep ext ft bin bt = Inr pc1"
    and "createPositionsStep ext ft bin pc1 = Inr pc2"
  shows "attributes pc ''COLOR_0'' =
     attributes (createColorsStep ext ft bin (createNormalsStep ext ft bin pc2)) ''COLOR_0''"
proof -
  from assms(1) obtain pc1' pc2' pc3 pc4 pc5 pc6 where
    s: "createDracoStep ext ft bin bt = Inr pc1'"
    "createPositionsStep ext ft bin pc1' = Inr pc2'"
    "pc3 = createNormalsStep ext ft bin pc2'"
    "pc4 = createColorsStep ext ft bin pc3"
    "createBatchIdsStep ft bin pc4 = Inr pc5"
    "createGlobalColorStep ext ft bin pc5 = Inr pc6"
    "createGlobalPositionStep ext ft bin pc6 = Inr pc"
    by (rule create_InrE)
  from s(1,2) assms(2,3) have same: "pc1' = pc1" "pc2' = pc2" by simp_all
  have "attributes pc ''COLOR_0'' = attributes pc5 ''COLOR_0''"
    using createGlobalPositionStep_Inr(1) [OF s(7)] createGlobalColorStep_Inr(1) [OF s(6)]
    by simp
  also have "\<dots> = attributes pc4 ''COLOR_0''"
    using createBatchIdsStep_Inr(2) [OF s(5), of "''COLOR_0''"] by simp
  finally show ?thesis using s(3,4) same by simp
qed

lemma color_absent_before_colors_step:
  assumes "createPositionsStep ext ft bin pc1 = Inr pc2"
  shows "attributes (createNormalsStep ext ft bin pc2) ''COLOR_0'' = attributes pc1 ''COLOR_0''"
  using createPositionsStep_Inr(2) [OF assms, of "''COLOR_0''"]
  by (simp add: createNormalsStep_attributes(2))

text \<open>
  C5. When the Draco step has stored no COLOR_0, the colours of the returned point cloud
  come from the first present of RGBA, RGB and RGB565: the unsigned byte VEC4 elements, the
  unsigned byte VEC3 elements, or the unsigned short scalars at the declared byte offset,
  each mapped to a normalized linear RGBA colour; with none of the three there are no
  colours. The colour of a standard RGB colour, and of an RGB565 value, has alpha 1. With
  RGBA in the table the result of \<open>create\<close> does not depend on RGB and RGB565; with RGB it
  does not depend on RGB565.
\<close>

theorem create_colors_precedence:
  assumes "create ext ft bin bt = Inr pc"
    and "createDracoStep ext ft bin bt = Inr pc1"
    and "attributes pc1 ''COLOR_0'' = None"
  shows "(\<forall>c. RGBA ft = Some c \<longrightarrow>
            attributes pc ''COLOR_0'' =
              Some \<lparr>attributeType = ''VEC4'', attributeComponentType = ''FLOAT32'',
                    attributeValues = IterablesMap
                      (NumericArrayIterable VEC4 UNSIGNED_BYTE bin (byteOffset c)
                         (POINTS_LENGTH ft))
                      (standardRGBAToNormalizedLinearRGBA ext)\<rparr>)
       \<and> (\<forall>c. RGBA ft = None \<and> RGB ft = Some c \<longrightarrow>
            attributes pc ''COLOR_0'' =
              Some \<lparr>attributeType = ''VEC4'', attributeComponentType = ''FLOAT32'',
                    attributeValues = IterablesMap
                      (NumericArrayIterable VEC3 UNSIGNED_BYTE bin (byteOffset c)
                         (POINTS_LENGTH ft))
                      (standardRGBToNormalizedLinearRGBA ext)\<rparr>)
       \<and> (\<forall>c. RGBA ft = None \<and> RGB ft = None \<and> RGB565 ft = Some c \<longrightarrow>
            attributes pc ''COLOR_0'' =
              Some \<lparr>attributeType = ''VEC4'', attributeComponentType = ''FLOAT32'',
                    attributeValues = IterablesMap
                      (NumericScalarIterable SCALAR UNSIGNED_SHORT bin (byteOffset c)
                         (POINTS_LENGTH ft))
                      (standardRGB565ToNormalizedLinearRGBA ext)\<rparr>)
       \<and> (RGBA ft = None \<and> RGB ft = None \<and> RGB565 ft = None \<longrightarrow>
            attributes pc ''COLOR_0'' = None)
       \<and> standardRGBToNormalizedLinearRGBA ext [r, g, b] =
            [standardToLinear ext r, standardToLinear ext g, standardToLinear ext b, 1]
       \<and> (decodeRGB565 ext v = [r, g, b] \<longrightarrow>
            standardRGB565ToNormalizedLinearRGBA ext v =
              [standardToLinear ext r, standardToLinear ext g, standardToLinear ext b, 1])
       \<and> (RGBA ft \<noteq> None \<longrightarrow>
            create ext (ft\<lparr>RGB := x, RGB565 := y\<rparr>) bin bt = create ext ft bin bt)
       \<and> (RGB ft \<noteq> None \<longrightarrow>
            create ext (ft\<lparr>RGB565 := y\<rparr>) bin bt = create ext ft bin bt)"
proof -
  from assms(1) obtain pc1' pc2 where
    "createDracoStep ext ft bin bt = Inr pc1'" and
    s2': "createPositionsStep ext ft bin pc1' = Inr pc2"
    by (auto simp: create_Inr)
  with assms(2) have s2: "createPositionsStep ext ft bin pc1 = Inr pc2" by simp
  let ?pc3 = "createNormalsStep ext ft bin pc2"
  have absent: "attributes ?pc3 ''COLOR_0'' = None"
    using color_absent_before_colors_step [OF s2] assms(3) by simp
  have stored: "attributes pc ''COLOR_0'' =
      map_option (\<lambda>colors. \<lparr>attributeType = ''VEC4'', attributeComponentType = ''FLOAT32'',
         attributeValues = colors\<rparr>) (createNormalizedLinearColors ext ft bin)"
    using create_COLOR_0 [OF assms(1,2) s2] absent
    by (simp add: createColorsStep_def setNormalizedLinearColors_def split: option.splits)
  have rgba: "\<forall>c. RGBA ft = Some c \<longrightarrow>
            attributes pc ''COLOR_0'' =
              Some \<lparr>attributeType = ''VEC4'', attributeComponentType = ''FLOAT32'',
                    attributeValues = IterablesMap
                      (NumericArrayIterable VEC4 UNSIGNED_BYTE bin (byteOffset c)
                         (POINTS_LENGTH ft))
                      (standardRGBAToNormalizedLinearRGBA ext)\<rparr>"
    by (simp add: stored createNormalizedLinearColors_def createColorsStandardRGBAInternal_def)
  have rgb: "\<forall>c. RGBA ft = None \<and> RGB ft = Some c \<longrightarrow>
            attributes pc ''COLOR_0'' =
              Some \<lparr>attributeType = ''VEC4'', attributeComponentType = ''FLOAT32'',
                    attributeValues = IterablesMap
                      (NumericArrayIterable VEC3 UNSIGNED_BYTE bin (byteOffset c)
                         (POINTS_LENGTH ft))
                      (standardRGBToNormalizedLinearRGBA ext)\<rparr>"
    by (simp add: stored createNormalizedLinearColors_def createColorsStandardRGBInternal_def)
  have rgb565: "\<forall>c. RGBA ft = None \<and> RGB ft = None \<and> RGB565 ft = Some c \<longrightarrow>
            attributes pc ''COLOR_0'' =
              Some \<lparr>attributeType = ''VEC4'', attributeComponentType = ''FLOAT32'',
                    attributeValues = IterablesMap
                      (NumericScalarIterable SCALAR UNSIGNED_SHORT bin (byteOffset c)
                         (POINTS_LENGTH ft))
                      (standardRGB565ToNormalizedLinearRGBA ext)\<rparr>"
    by (simp add: stored createNormalizedLinearColors_def
        createColorsStandardRGB656Internal_def)
  have none: "RGBA ft = None \<and> RGB ft = None \<and> RGB565 ft = None \<longrightarrow>
            attributes pc ''COLOR_0'' = None"
    by (simp add: stored createNormalizedLinearColors_def)
  have alpha: "standardRGBToNormalizedLinearRGBA ext [r, g, b] =
            [standardToLinear ext r, standardToLinear ext g, standardToLinear ext b, 1]"
    by (simp add: standardRGBToNormalizedLinearRGBA_def)
  have alpha565: "decodeRGB565 ext v = [r, g, b] \<longrightarrow>
            standardRGB565ToNormalizedLinearRGBA ext v =
              [standardToLinear ext r, standardToLinear ext g, standardToLinear ext b, 1]"
    by (simp add: standardRGB565ToNormalizedLinearRGBA_def
        standardRGBToNormalizedLinearRGBA_def)
  have ind1: "RGBA ft \<noteq> None \<longrightarrow>
            create ext (ft\<lparr>RGB := x, RGB565 := y\<rparr>) bin bt = create ext ft bin bt"
  proof
    assume "RGBA ft \<noteq> None"
    note c = createNormalizedLinearColors_RGBA [where ext = ext and x = x and y = y
        and bin = bin, OF this]
    have g: "createGlobalColorStep ext (ft\<lparr>RGB := x, RGB565 := y\<rparr>) bin pc
        = createGlobalColorStep ext ft bin pc" for pc
      by (rule createGlobalColorStep_cong) simp
    show "create ext (ft\<lparr>RGB := x, RGB565 := y\<rparr>) bin bt = create ext ft bin bt"
      by (rule create_cong) (simp_all add: c g)
  qed
  have ind2: "RGB ft \<noteq> None \<longrightarrow>
            create ext (ft\<lparr>RGB565 := y\<rparr>) bin bt = create ext ft bin bt"
  proof
    assume "RGB ft \<noteq> None"
    note c = createNormalizedLinearColors_RGB [where ext = ext and y = y and bin = bin,
        OF this]
    have g: "createGlobalColorStep ext (ft\<lparr>RGB565 := y\<rparr>) bin pc
        = createGlobalColorStep ext ft bin pc" for pc
      by (rule createGlobalColorStep_cong) simp
    show "create ext (ft\<lparr>RGB565 := y\<rparr>) bin bt = create ext ft bin bt"
      by (rule create_cong) (simp_all add: c g)
  qed
  from rgba rgb rgb565 none alpha alpha565 ind1 ind2 show ?thesis by blast
qed

text \<open>
  A table with POSITION, RGBA and RGB: the colours are those of RGBA, and the result is
  that of the table without RGB. A table with POSITION and RGB: the colours are those of
  RGB, and the standard RGB colour \<open>[255, 0, 51]\<close> becomes \<open>[1, 0, 1/5, 1]\<close>.
\<close>

theorem create_colors_precedence_witness:
  "(case create exampleExternals
      (emptyFeatureTable\<lparr>POSITION := Some \<lparr>byteOffset = 0, componentType = None\<rparr>,
         RGBA := Some \<lparr>byteOffset = 24, componentType = None\<rparr>,
         RGB := Some \<lparr>byteOffset = 32, componentType = None\<rparr>\<rparr>)
      [] emptyBatchTable of
      Inl e \<Rightarrow> False
    | Inr pc \<Rightarrow>
        attributes pc ''COLOR_0'' =
          Some \<lparr>attributeType = ''VEC4'', attributeComponentType = ''FLOAT32'',
                attributeValues = IterablesMap (NumericArrayIterable VEC4 UNSIGNED_BYTE [] 24 2)
                  (standardRGBAToNormalizedLinearRGBA exampleExternals)\<rparr>)
   \<and> create exampleExternals
       (emptyFeatureTable\<lparr>POSITION := Some \<lparr>byteOffset = 0, componentType = None\<rparr>,
          RGBA := Some \<lparr>byteOffset = 24, componentType = None\<rparr>,
          RGB := Some \<lparr>byteOffset = 32, componentType = None\<rparr>\<rparr>)
       [] emptyBatchTable
     = create exampleExternals
       (emptyFeatureTable\<lparr>POSITION := Some \<lparr>byteOffset = 0, componentType = None\<rparr>,
          RGBA := Some \<lparr>byteOffset = 24, componentType = None\<rparr>\<rparr>)
       [] emptyBatchTable
   \<and> (case create exampleExternals
      (emptyFeatureTable\<lparr>POSITION := Some \<lparr>byteOffset = 0, componentType = None\<rparr>,
         RGB := Some \<lparr>byteOffset = 32, componentType = None\<rparr>\<rparr>)
      [] emptyBatchTable of
      Inl e \<Rightarrow> False
    | Inr pc \<Rightarrow>
        attributes pc ''COLOR_0'' =
          Some \<lparr>attributeType = ''VEC4'', attributeComponentType = ''FLOAT32'',
                attributeValues = IterablesMap (NumericArrayIterable VEC3 UNSIGNED_BYTE [] 32 2)
                  (standardRGBToNormalizedLinearRGBA exampleExternals)\<rparr>)
   \<and> standardRGBToNormalizedLinearRGBA exampleExternals [255, 0, 51] = [1, 0, 1 / 5, 1]"
proof -
  let ?e = exampleExternals
  let ?a = "emptyFeatureTable\<lparr>POSITION := Some \<lparr>byteOffset = 0, componentType = None\<rparr>,
         RGBA := Some \<lparr>byteOffset = 24, componentType = None\<rparr>\<rparr>"
  let ?ab = "emptyFeatureTable\<lparr>POSITION := Some \<lparr>byteOffset = 0, componentType = None\<rparr>,
         RGBA := Some \<lparr>byteOffset = 24, componentType = None\<rparr>,
         RGB := Some \<lparr>byteOffset = 32, componentType = None\<rparr>\<rparr>"
  let ?b = "emptyFeatureTable\<lparr>POSITION := Some \<lparr>byteOffset = 0, componentType = None\<rparr>,
         RGB := Some \<lparr>byteOffset = 32, componentType = None\<rparr>\<rparr>"
  have d: "createDracoStep ?e ft [] emptyBatchTable = Inr DefaultPointCloud_new"
    if "extensions ft = None" for ft
    using that by (simp add: createDracoStep_def obtainDracoDecodedAttributes_def)
  have n: "attributes DefaultPointCloud_new ''COLOR_0'' = None"
    by (simp add: DefaultPointCloud_new_fields)
  have "\<exists>pc. create ?e ?ab [] emptyBatchTable = Inr pc"
    by (simp add: create_defs)
  then obtain pcab where cab: "create ?e ?ab [] emptyBatchTable = Inr pcab" ..
  have dab: "createDracoStep ?e ?ab [] emptyBatchTable = Inr DefaultPointCloud_new"
    by (rule d) (simp add: emptyFeatureTable_def)
  have "\<exists>pc. create ?e ?b [] emptyBatchTable = Inr pc"
    by (simp add: create_defs)
  then obtain pcb where cb: "create ?e ?b [] emptyBatchTable = Inr pcb" ..
  have db: "createDracoStep ?e ?b [] emptyBatchTable = Inr DefaultPointCloud_new"
    by (rule d) (simp add: emptyFeatureTable_def)
  have 1: "attributes pcab ''COLOR_0'' =
          Some \<lparr>attributeType = ''VEC4'', attributeComponentType = ''FLOAT32'',
                attributeValues = IterablesMap (NumericArrayIterable VEC4 UNSIGNED_BYTE [] 24 2)
                  (standardRGBAToNormalizedLinearRGBA ?e)\<rparr>"
    using create_colors_precedence [OF cab dab n] by (simp add: emptyFeatureTable_def)
  have "create ?e (?ab\<lparr>RGB := None, RGB565 := None\<rparr>) [] emptyBatchTable
      = create ?e ?ab [] emptyBatchTable"
    using create_colors_precedence [OF cab dab n, where x = None and y = None]
    by (simp add: emptyFeatureTable_def)
  moreover have "?ab\<lparr>RGB := None, RGB565 := None\<rparr> = ?a"
    by (simp add: emptyFeatureTable_def)
  ultimately have 2: "create ?e ?ab [] emptyBatchTable = create ?e ?a [] emptyBatchTable"
    by simp
  have 3: "attributes pcb ''COLOR_0'' =
          Some \<lparr>attributeType = ''VEC4'', attributeComponentType = ''FLOAT32'',
                attributeValues = IterablesMap (NumericArrayIterable VEC3 UNSIGNED_BYTE [] 32 2)
                  (standardRGBToNormalizedLinearRGBA ?e)\<rparr>"
    using create_colors_precedence [OF cb db n] by (simp add: emptyFeatureTable_def)
  have 4: "standardRGBToNormalizedLinearRGBA ?e [255, 0, 51] = [1, 0, 1 / 5, 1]"
    using create_colors_precedence [OF cb db n, where r = 255 and g = 0 and b = 51]
    by (simp add: exampleExternals_def)
  from cab cb 1 2 3 4 show ?thesis by simp
qed

subsection \<open>The global colour\<close>

lemma createGlobalNormalizedLinearColor_cases:
  "(CONSTANT_RGBA ft = None \<longrightarrow> createGlobalNormalizedLinearColor ext ft bin = Inr None)
   \<and> (\<forall>c rgba. CONSTANT_RGBA ft = Some c \<and>
          obtainNumberArray ext bin c 4 ''UNSIGNED_BYTE'' = Inr rgba \<longrightarrow>
          createGlobalNormalizedLinearColor ext ft bin =
            Inr (Some [standardRGBAToNormalizedLinearRGBA ext rgba ! 0,
                       standardRGBAToNormalizedLinearRGBA ext rgba ! 1,
                       standardRGBAToNormalizedLinearRGBA ext rgba ! 2,
                       standardRGBAToNormalizedLinearRGBA ext rgba ! 3]))"
  by (auto simp: createGlobalNormalizedLinearColor_def Let_def)

text \<open>
  C7. In a successful call, COLOR_0 of the returned point cloud is COLOR_0 after the
  colours step. When it is absent, the global colour of the point cloud is what
  \<open>createGlobalNormalizedLinearColor\<close> returns: nothing without CONSTANT_RGBA, and with it
  the four components of the normalized linear colour of its four unsigned bytes; COLOR_0
  stays absent. When COLOR_0 is present, the global colour is undefined and the returned
  point cloud is the same whatever CONSTANT_RGBA is.
\<close>

theorem create_global_color:
  assumes "create ext ft bin bt = Inr pc"
  shows "(\<forall>pc1 pc2. createDracoStep ext ft bin bt = Inr pc1 \<and>
            createPositionsStep ext ft bin pc1 = Inr pc2 \<longrightarrow>
            attributes pc ''COLOR_0'' =
              attributes (createColorsStep ext ft bin (createNormalsStep ext ft bin pc2))
                ''COLOR_0'')
       \<and> (attributes pc ''COLOR_0'' = None \<longrightarrow>
            createGlobalNormalizedLinearColor ext ft bin = Inr (globalColor pc))
       \<and> (attributes pc ''COLOR_0'' \<noteq> None \<longrightarrow>
            globalColor pc = None \<and>
            create ext (ft\<lparr>CONSTANT_RGBA := c'\<rparr>) bin bt = Inr pc)
       \<and> (CONSTANT_RGBA ft = None \<longrightarrow> createGlobalNormalizedLinearColor ext ft bin = Inr None)
       \<and> (\<forall>c rgba. CONSTANT_RGBA ft = Some c \<and>
            obtainNumberArray ext bin c 4 ''UNSIGNED_BYTE'' = Inr rgba \<longrightarrow>
            createGlobalNormalizedLinearColor ext ft bin =
              Inr (Some [standardRGBAToNormalizedLinearRGBA ext rgba ! 0,
                         standardRGBAToNormalizedLinearRGBA ext rgba ! 1,
                         standardRGBAToNormalizedLinearRGBA ext rgba ! 2,
                         standardRGBAToNormalizedLinearRGBA ext rgba ! 3]))
       \<and> obtainNumberArray ext bin (NumberArray xs) 4 ''UNSIGNED_BYTE'' = Inr xs"
proof -
  let ?ft = "ft\<lparr>CONSTANT_RGBA := c'\<rparr>"
  from assms obtain pc1 pc2 pc3 pc4 pc5 pc6 where
    s: "createDracoStep ext ft bin bt = Inr pc1"
    "createPositionsStep ext ft bin pc1 = Inr pc2"
    "pc3 = createNormalsStep ext ft bin pc2"
    "pc4 = createColorsStep ext ft bin pc3"
    "createBatchIdsStep ft bin pc4 = Inr pc5"
    "createGlobalColorStep ext ft bin pc5 = Inr pc6"
    "createGlobalPositionStep ext ft bin pc6 = Inr pc"
    by (rule create_InrE)
  have after: "\<forall>pc1 pc2. createDracoStep ext ft bin bt = Inr pc1 \<and>
            createPositionsStep ext ft bin pc1 = Inr pc2 \<longrightarrow>
            attributes pc ''COLOR_0'' =
              attributes (createColorsStep ext ft bin (createNormalsStep ext ft bin pc2))
                ''COLOR_0''"
    using create_COLOR_0 [OF assms] by blast
  have a5: "attributes pc ''COLOR_0'' = attributes pc5 ''COLOR_0''"
    using createGlobalPositionStep_Inr(1) [OF s(7)] createGlobalColorStep_Inr(1) [OF s(6)]
    by simp
  have g5: "globalColor pc5 = None"
    using createDracoStep_globals(2) [OF s(1)] createPositionsStep_Inr(4) [OF s(2)]
      createBatchIdsStep_Inr(4) [OF s(5)] s(3,4)
    by (simp add: createNormalsStep_attributes(4) createColorsStep_attributes(4))
  have g: "globalColor pc = globalColor pc6"
    using createGlobalPositionStep_Inr(2) [OF s(7)] .
  have absent: "attributes pc ''COLOR_0'' = None \<longrightarrow>
            createGlobalNormalizedLinearColor ext ft bin = Inr (globalColor pc)"
    using s(6) a5 g
    by (auto simp: createGlobalColorStep_def bind_eq_Inr setNormalizedLinearGlobalColor_def)
  have present: "attributes pc ''COLOR_0'' \<noteq> None \<longrightarrow>
            globalColor pc = None \<and> create ext ?ft bin bt = Inr pc"
  proof
    assume "attributes pc ''COLOR_0'' \<noteq> None"
    with a5 have p5: "attributes pc5 ''COLOR_0'' \<noteq> None" by simp
    with s(6) have pc6: "pc6 = pc5"
      by (auto simp: createGlobalColorStep_def)
    have e1: "createDracoStep ext ?ft bin bt = Inr pc1"
      using createDracoStep_cong [of ?ft ft ext bin bt] s(1) by simp
    have "createPositions ext ?ft bin = createPositions ext ft bin"
      by (rule createPositions_cong) simp_all
    from createPositionsStep_cong [OF this, of pc1] s(2)
    have e2: "createPositionsStep ext ?ft bin pc1 = Inr pc2" by simp
    have e3: "createNormalsStep ext ?ft bin pc2 = pc3"
      using createNormalsStep_cong [of ?ft ft ext bin pc2] s(3) by simp
    have "createNormalizedLinearColors ext ?ft bin = createNormalizedLinearColors ext ft bin"
      by (rule createNormalizedLinearColors_cong) simp_all
    from createColorsStep_cong [OF this, of pc3] s(4)
    have e4: "createColorsStep ext ?ft bin pc3 = pc4" by simp
    have e5: "createBatchIdsStep ?ft bin pc4 = Inr pc5"
      using createBatchIdsStep_cong [of ?ft ft bin pc4] s(5) by simp
    have e6: "createGlobalColorStep ext ?ft bin pc5 = Inr pc5"
      using p5 by (auto simp: createGlobalColorStep_def)
    have e7: "createGlobalPositionStep ext ?ft bin pc5 = Inr pc"
      using createGlobalPositionStep_cong [of ?ft ft ext bin pc5] s(7) pc6 by simp
    have "create ext ?ft bin bt = Inr pc"
      by (simp add: create_def e1 e2 e3 e4 e5 e6 e7)
    with g pc6 g5 show "globalColor pc = None \<and> create ext ?ft bin bt = Inr pc" by simp
  qed
  have inline: "obtainNumberArray ext bin (NumberArray xs) 4 ''UNSIGNED_BYTE'' = Inr xs"
    by (simp add: obtainNumberArray_def)
  from after absent present createGlobalNormalizedLinearColor_cases [of ft ext bin] inline
  show ?thesis by blast
qed

text \<open>
  A table with POSITION and the constant colour \<open>[255, 0, 51, 255]\<close>: the global colour is
  \<open>[1, 0, 1/5, 1]\<close> and there is no COLOR_0. The same table with RGB: there is a COLOR_0 and
  no global colour.
\<close>

theorem create_global_color_witness:
  "(case create exampleExternals
      (emptyFeatureTable\<lparr>POSITION := Some \<lparr>byteOffset = 0, componentType = None\<rparr>,
         CONSTANT_RGBA := Some (NumberArray [255, 0, 51, 255])\<rparr>)
      [] emptyBatchTable of
      Inl e \<Rightarrow> False
    | Inr pc \<Rightarrow> getAttributeValues pc ''COLOR_0'' = None \<and>
        globalColor pc = Some [1, 0, 1 / 5, 1])
   \<and> (case create exampleExternals
      (emptyFeatureTable\<lparr>POSITION := Some \<lparr>byteOffset = 0, componentType = None\<rparr>,
         RGB := Some \<lparr>byteOffset = 24, componentType = None\<rparr>,
         CONSTANT_RGBA := Some (NumberArray [255, 0, 51, 255])\<rparr>)
      [] emptyBatchTable of
      Inl e \<Rightarrow> False
    | Inr pc \<Rightarrow> globalColor pc = None)"
proof -
  let ?e = exampleExternals
  let ?c = "emptyFeatureTable\<lparr>POSITION := Some \<lparr>byteOffset = 0, componentType = None\<rparr>,
         CONSTANT_RGBA := Some (NumberArray [255, 0, 51, 255])\<rparr>"
  let ?r = "emptyFeatureTable\<lparr>POSITION := Some \<lparr>byteOffset = 0, componentType = None\<rparr>,
         RGB := Some \<lparr>byteOffset = 24, componentType = None\<rparr>,
         CONSTANT_RGBA := Some (NumberArray [255, 0, 51, 255])\<rparr>"
  have "\<exists>pc. create ?e ?c [] emptyBatchTable = Inr pc \<and> attributes pc ''COLOR_0'' = None"
    by (simp add: create_defs)
  then obtain pcc where cc: "create ?e ?c [] emptyBatchTable = Inr pcc"
    and ac: "attributes pcc ''COLOR_0'' = None" by blast
  have n: "obtainNumberArray ?e [] (NumberArray [255, 0, 51, 255]) 4 ''UNSIGNED_BYTE''
      = Inr [255, 0, 51, 255]"
    using create_global_color [OF cc] by blast
  have "createGlobalNormalizedLinearColor ?e ?c [] = Inr (globalColor pcc)"
    using create_global_color [OF cc] ac by blast
  moreover have "createGlobalNormalizedLinearColor ?e ?c [] =
      Inr (Some [standardRGBAToNormalizedLinearRGBA ?e [255, 0, 51, 255] ! 0,
                 standardRGBAToNormalizedLinearRGBA ?e [255, 0, 51, 255] ! 1,
                 standardRGBAToNormalizedLinearRGBA ?e [255, 0, 51, 255] ! 2,
                 standardRGBAToNormalizedLinearRGBA ?e [255, 0, 51, 255] ! 3])"
    using create_global_color [OF cc] n by (simp add: emptyFeatureTable_def)
  ultimately have 1: "globalColor pcc = Some [1, 0, 1 / 5, 1]"
    by (simp add: exampleExternals_def)
  have "\<exists>pc. create ?e ?r [] emptyBatchTable = Inr pc \<and> attributes pc ''COLOR_0'' \<noteq> None"
    by (simp add: create_defs)
  then obtain pcr where cr: "create ?e ?r [] emptyBatchTable = Inr pcr"
    and ar: "attributes pcr ''COLOR_0'' \<noteq> None" by blast
  have 2: "globalColor pcr = None"
    using create_global_color [OF cr] ar by blast
  from cc ac 1 cr 2 show ?thesis by simp
qed

subsection \<open>The batch ids\<close>

lemma create_FEATURE_ID:
  assumes "create ext ft bin bt = Inr pc"
  obtains pc1 pc4 pc5 where "createDracoStep ext ft bin bt = Inr pc1"
    and "attributes pc4 ''_FEATURE_ID_0'' = attributes pc1 ''_FEATURE_ID_0''"
    and "createBatchIdsStep ft bin pc4 = Inr pc5"
    and "attributes pc = attributes pc5"
proof -
  from assms obtain pc1 pc2 pc3 pc4 pc5 pc6 where
    s: "createDracoStep ext ft bin bt = Inr pc1"
    "createPositionsStep ext ft bin pc1 = Inr pc2"
    "pc3 = createNormalsStep ext ft bin pc2"
    "pc4 = createColorsStep ext ft bin pc3"
    "createBatchIdsStep ft bin pc4 = Inr pc5"
    "createGlobalColorStep ext ft bin pc5 = Inr pc6"
    "createGlobalPositionStep ext ft bin pc6 = Inr pc"
    by (rule create_InrE)
  have "attributes pc4 ''_FEATURE_ID_0'' = attributes pc1 ''_FEATURE_ID_0''"
    using feature_id_before_batch_step [OF s(2)] s(3,4) by simp
  moreover have "attributes pc = attributes pc5"
    using createGlobalPositionStep_Inr(1) [OF s(7)] createGlobalColorStep_Inr(1) [OF s(6)]
    by simp
  ultimately show ?thesis using s(1,5) that by blast
qed

text \<open>
  C9. When the Draco step has stored no \<open>_FEATURE_ID_0\<close> and the feature table has a
  BATCH_ID whose descriptor declares no component type, a successful call stores
  \<open>_FEATURE_ID_0\<close> as a SCALAR attribute of component type UINT16, the canonical name of
  UNSIGNED_SHORT, whose values are the unsigned short scalars of the binary at the declared
  byte offset (and BATCH_LENGTH is present).
\<close>

theorem create_batch_ids_default_type:
  assumes "create ext ft bin bt = Inr pc"
    and "createDracoStep ext ft bin bt = Inr pc1"
    and "attributes pc1 ''_FEATURE_ID_0'' = None"
    and "BATCH_ID ft = Some b"
    and "componentType b = None"
  shows "attributes pc ''_FEATURE_ID_0'' =
           Some \<lparr>attributeType = ''SCALAR'', attributeComponentType = ''UINT16'',
                 attributeValues = NumericScalarIterable SCALAR UNSIGNED_SHORT bin
                   (byteOffset b) (POINTS_LENGTH ft)\<rparr>
       \<and> BATCH_LENGTH ft \<noteq> None
       \<and> convertLegacyComponentTypeToComponentType UNSIGNED_SHORT = ''UINT16''
       \<and> toList ext (NumericScalarIterable SCALAR UNSIGNED_SHORT bin off n) =
           (case numericScalarValues ext SCALAR UNSIGNED_SHORT bin off n of
              None \<Rightarrow> Inl RangeError
            | Some xs \<Rightarrow> Inr xs)"
proof -
  from assms(1) obtain pc1' pc4 pc5 where
    s: "createDracoStep ext ft bin bt = Inr pc1'"
    "attributes pc4 ''_FEATURE_ID_0'' = attributes pc1' ''_FEATURE_ID_0''"
    "createBatchIdsStep ft bin pc4 = Inr pc5"
    "attributes pc = attributes pc5"
    by (rule create_FEATURE_ID)
  from s(1) assms(2) have "pc1' = pc1" by simp
  with s(2) assms(3) have absent: "attributes pc4 ''_FEATURE_ID_0'' = None" by simp
  have len: "BATCH_LENGTH ft \<noteq> None"
  proof
    assume "BATCH_LENGTH ft = None"
    with absent assms(4) have "createBatchIdsStep ft bin pc4 =
        Inl (TileFormatError ''Found BATCH_ID but no BATCH_LENGTH'')"
      by (simp add: createBatchIdsStep_Inl)
    with s(3) show False by simp
  qed
  then obtain l where l: "BATCH_LENGTH ft = Some l" by blast
  have ids: "createBatchIds ft bin =
      Inr (Some (NumericScalarIterable SCALAR UNSIGNED_SHORT bin (byteOffset b)
                   (POINTS_LENGTH ft)))"
    using assms(4,5) l by (simp add: createBatchIds_def createBatchIdsInternal_def)
  have ty: "obtainBatchIdComponentType ft = Some ''UINT16''"
    using assms(4,5) by (simp add: obtainBatchIdComponentType_def)
  from s(3) absent ids ty have "pc5 = setAttribute pc4 ''_FEATURE_ID_0'' ''SCALAR'' ''UINT16''
      (NumericScalarIterable SCALAR UNSIGNED_SHORT bin (byteOffset b) (POINTS_LENGTH ft))"
    by (simp add: createBatchIdsStep_def addAttribute_def)
  with s(4) have "attributes pc ''_FEATURE_ID_0'' =
           Some \<lparr>attributeType = ''SCALAR'', attributeComponentType = ''UINT16'',
                 attributeValues = NumericScalarIterable SCALAR UNSIGNED_SHORT bin
                   (byteOffset b) (POINTS_LENGTH ft)\<rparr>"
    by simp
  with len show ?thesis by (simp split: option.splits)
qed

text \<open>
  A table with POSITION, BATCH_LENGTH 3 and a BATCH_ID at byte offset 24 that declares no
  component type.
\<close>

theorem create_batch_ids_default_type_witness:
  "(case create exampleExternals
      (emptyFeatureTable\<lparr>POSITION := Some \<lparr>byteOffset = 0, componentType = None\<rparr>,
         BATCH_ID := Some \<lparr>byteOffset = 24, componentType = None\<rparr>,
         BATCH_LENGTH := Some 3\<rparr>)
      [] emptyBatchTable of
      Inl e \<Rightarrow> False
    | Inr pc \<Rightarrow>
        attributes pc ''_FEATURE_ID_0'' =
          Some \<lparr>attributeType = ''SCALAR'', attributeComponentType = ''UINT16'',
                attributeValues = NumericScalarIterable SCALAR UNSIGNED_SHORT [] 24 2\<rparr>)
   \<and> toList exampleExternals (NumericScalarIterable SCALAR UNSIGNED_SHORT [] 24 2)
       = Inr [[7], [7]]"
proof -
  let ?e = exampleExternals
  let ?b = "emptyFeatureTable\<lparr>POSITION := Some \<lparr>byteOffset = 0, componentType = None\<rparr>,
         BATCH_ID := Some \<lparr>byteOffset = 24, componentType = None\<rparr>,
         BATCH_LENGTH := Some 3\<rparr>"
  have "\<exists>pc. create ?e ?b [] emptyBatchTable = Inr pc"
    by (simp add: create_defs)
  then obtain pc where c: "create ?e ?b [] emptyBatchTable = Inr pc" ..
  have d: "createDracoStep ?e ?b [] emptyBatchTable = Inr DefaultPointCloud_new"
    by (simp add: createDracoStep_def obtainDracoDecodedAttributes_def emptyFeatureTable_def)
  have n: "attributes DefaultPointCloud_new ''_FEATURE_ID_0'' = None"
    by (simp add: DefaultPointCloud_new_fields)
  have b: "BATCH_ID ?b = Some \<lparr>byteOffset = 24, componentType = None\<rparr>" by simp
  have t: "componentType \<lparr>byteOffset = 24, componentType = None\<rparr> = None" by simp
  note inst = create_batch_ids_default_type [OF c d n b t, where off = 24 and n = 2]
  from inst have 1: "attributes pc ''_FEATURE_ID_0'' =
          Some \<lparr>attributeType = ''SCALAR'', attributeComponentType = ''UINT16'',
                attributeValues = NumericScalarIterable SCALAR UNSIGNED_SHORT [] 24 2\<rparr>"
    by (simp add: emptyFeatureTable_def)
  from inst have 2: "toList ?e (NumericScalarIterable SCALAR UNSIGNED_SHORT [] 24 2)
       = Inr [[7], [7]]"
    by (simp add: exampleExternals_def numeral_2_eq_2)
  from c 1 2 show ?thesis by simp
qed

subsection \<open>The generic attributes of the Draco step\<close>

lemma assignDracoProperties_added:
  "assignDracoProperties pc n r bt names = Inr pc' \<Longrightarrow> attributes pc name = None \<Longrightarrow>
   attributes pc' name \<noteq> None \<Longrightarrow>
   name \<in> set names \<and> r name \<noteq> None \<and>
   (\<exists>off c ty. bt_properties bt name = Some (BinaryBodyReference off c ty))"
proof (induction names arbitrary: pc)
  case Nil
  then show ?case by simp
next
  case (Cons a names)
  show ?case
  proof (cases "\<exists>dp off c ty. r a = Some dp \<and>
      bt_properties bt a = Some (BinaryBodyReference off c ty)")
    case False
    with Cons.prems(1) have "assignDracoProperties pc n r bt names = Inr pc'"
      by (auto split: option.splits batch_table_property.splits)
    from Cons.IH [OF this Cons.prems(2,3)] show ?thesis by simp
  next
    case True
    then obtain dp off c ty where
      t: "r a = Some dp" "bt_properties bt a = Some (BinaryBodyReference off c ty)"
      by blast
    with Cons.prems(1) obtain pcm where
      a: "addAttribute pc a (convertLegacyTypeToType ty)
            (convertLegacyComponentTypeToComponentType (componentDatatype dp))
            (NumericScalarIterable ty (componentDatatype dp) (attributeData dp)
               (attributeByteOffset dp) n) = Inr pcm"
      and b: "assignDracoProperties pcm n r bt names = Inr pc'"
      by (auto simp: bind_eq_Inr Let_def)
    show ?thesis
    proof (cases "a = name")
      case True
      with t show ?thesis by simp
    next
      case False
      with a Cons.prems(2) have "attributes pcm name = None"
        by (auto simp: addAttribute_Inr)
      from Cons.IH [OF b this Cons.prems(3)] show ?thesis by simp
    qed
  qed
qed

lemma dracoSlots_other:
  "name \<noteq> ''POSITION'' \<Longrightarrow> name \<noteq> ''NORMAL'' \<Longrightarrow> name \<noteq> ''COLOR_0'' \<Longrightarrow>
   attributes (dracoSlots ext n r) name = None"
  by (simp add: dracoSlots_def assignDracoRGBA_def assignDracoRGB_def assignDracoNormals_def
      assignDracoPositions_def DefaultPointCloud_new_def setPositions_def setNormals_def
      setNormalizedLinearColors_def split: option.splits)

lemma create_other_attributes:
  assumes "create ext ft bin bt = Inr pc"
  shows "\<exists>pc1. createDracoStep ext ft bin bt = Inr pc1 \<and>
           attributes pc1 \<subseteq>\<^sub>m attributes pc \<and>
           (\<forall>name. name \<noteq> ''POSITION'' \<and> name \<noteq> ''NORMAL'' \<and> name \<noteq> ''COLOR_0'' \<and>
              name \<noteq> ''_FEATURE_ID_0'' \<longrightarrow> attributes pc name = attributes pc1 name)"
proof -
  from assms obtain pc1 pc2 pc3 pc4 pc5 pc6 where
    s: "createDracoStep ext ft bin bt = Inr pc1"
    "createPositionsStep ext ft bin pc1 = Inr pc2"
    "pc3 = createNormalsStep ext ft bin pc2"
    "pc4 = createColorsStep ext ft bin pc3"
    "createBatchIdsStep ft bin pc4 = Inr pc5"
    "createGlobalColorStep ext ft bin pc5 = Inr pc6"
    "createGlobalPositionStep ext ft bin pc6 = Inr pc"
    by (rule create_InrE)
  have e: "attributes pc = attributes pc5"
    using createGlobalPositionStep_Inr(1) [OF s(7)] createGlobalColorStep_Inr(1) [OF s(6)]
    by simp
  have "attributes pc1 \<subseteq>\<^sub>m attributes pc2" by (rule createPositionsStep_Inr(1) [OF s(2)])
  also have "attributes pc2 \<subseteq>\<^sub>m attributes pc3"
    unfolding s(3) by (rule createNormalsStep_attributes(1))
  also have "attributes pc3 \<subseteq>\<^sub>m attributes pc4"
    unfolding s(4) by (rule createColorsStep_attributes(1))
  also have "attributes pc4 \<subseteq>\<^sub>m attributes pc5" by (rule createBatchIdsStep_Inr(1) [OF s(5)])
  finally have m: "attributes pc1 \<subseteq>\<^sub>m attributes pc" using e by simp
  have o: "attributes pc name = attributes pc1 name"
    if "name \<noteq> ''POSITION''" "name \<noteq> ''NORMAL''" "name \<noteq> ''COLOR_0''"
      "name \<noteq> ''_FEATURE_ID_0''" for name
    using that e createBatchIdsStep_Inr(2) [OF s(5), of name]
      createPositionsStep_Inr(2) [OF s(2), of name] s(3,4)
    by (simp add: createColorsStep_attributes(2) createNormalsStep_attributes(2))
  from s(1) m o show ?thesis by blast
qed

text \<open>
  C8, as amended. In a successful call with the Draco result \<open>r\<close>: every property name
  that the Draco extension of the batch table lists, that \<open>r\<close> has, and whose batch table
  entry is a reference into the binary body, is an attribute of the point cloud under
  that name; its element type is translated from the legacy type of the batch table entry,
  its component type from the component datatype of the Draco result, and its values are
  the Draco-decoded data. No other name than these, POSITION, NORMAL, COLOR_0 and
  \<open>_FEATURE_ID_0\<close> is an attribute of the point cloud.
\<close>

theorem create_draco_generic_attributes:
  assumes "create ext ft bin bt = Inr pc"
    and "obtainDracoDecodedAttributes ext ft bin bt = Inr (Some r)"
  shows "(\<forall>name dp off c ty.
            name \<in> set (obtainDracoPropertyNames bt) \<and> r name = Some dp \<and>
            bt_properties bt name = Some (BinaryBodyReference off c ty) \<longrightarrow>
            attributes pc name =
              Some \<lparr>attributeType = convertLegacyTypeToType ty,
                    attributeComponentType =
                      convertLegacyComponentTypeToComponentType (componentDatatype dp),
                    attributeValues = NumericScalarIterable ty (componentDatatype dp)
                      (attributeData dp) (attributeByteOffset dp) (POINTS_LENGTH ft)\<rparr>)
       \<and> (\<forall>name. name \<noteq> ''POSITION'' \<and> name \<noteq> ''NORMAL'' \<and> name \<noteq> ''COLOR_0'' \<and>
            name \<noteq> ''_FEATURE_ID_0'' \<and> attributes pc name \<noteq> None \<longrightarrow>
            name \<in> set (obtainDracoPropertyNames bt) \<and> r name \<noteq> None \<and>
            (\<exists>off c ty. bt_properties bt name = Some (BinaryBodyReference off c ty)))"
proof -
  from assms(1) obtain pc1 where
    s1: "createDracoStep ext ft bin bt = Inr pc1" and
    m: "attributes pc1 \<subseteq>\<^sub>m attributes pc" and
    o: "\<forall>name. name \<noteq> ''POSITION'' \<and> name \<noteq> ''NORMAL'' \<and> name \<noteq> ''COLOR_0'' \<and>
           name \<noteq> ''_FEATURE_ID_0'' \<longrightarrow> attributes pc name = attributes pc1 name"
    using create_other_attributes by blast
  from s1 assms(2) have
    "assignDracoDecodedAttributes ext DefaultPointCloud_new (POINTS_LENGTH ft) r bt = Inr pc1"
    by (auto simp: createDracoStep_Inr)
  then obtain pc5 where
    a: "assignDracoBatchIds (dracoSlots ext (POINTS_LENGTH ft) r) (POINTS_LENGTH ft) r = Inr pc5"
    and b: "assignDracoProperties pc5 (POINTS_LENGTH ft) r bt (obtainDracoPropertyNames bt)
        = Inr pc1"
    by (auto simp: assignDracoDecodedAttributes_Inr)
  have listed: "\<forall>name dp off c ty.
            name \<in> set (obtainDracoPropertyNames bt) \<and> r name = Some dp \<and>
            bt_properties bt name = Some (BinaryBodyReference off c ty) \<longrightarrow>
            attributes pc name =
              Some \<lparr>attributeType = convertLegacyTypeToType ty,
                    attributeComponentType =
                      convertLegacyComponentTypeToComponentType (componentDatatype dp),
                    attributeValues = NumericScalarIterable ty (componentDatatype dp)
                      (attributeData dp) (attributeByteOffset dp) (POINTS_LENGTH ft)\<rparr>"
  proof (intro allI impI)
    fix name dp off c ty
    assume h: "name \<in> set (obtainDracoPropertyNames bt) \<and> r name = Some dp \<and>
            bt_properties bt name = Some (BinaryBodyReference off c ty)"
    then have "attributes pc1 name =
              Some \<lparr>attributeType = convertLegacyTypeToType ty,
                    attributeComponentType =
                      convertLegacyComponentTypeToComponentType (componentDatatype dp),
                    attributeValues = NumericScalarIterable ty (componentDatatype dp)
                      (attributeData dp) (attributeByteOffset dp) (POINTS_LENGTH ft)\<rparr>"
      using assignDracoProperties_listed [OF b] by blast
    with m show "attributes pc name =
              Some \<lparr>attributeType = convertLegacyTypeToType ty,
                    attributeComponentType =
                      convertLegacyComponentTypeToComponentType (componentDatatype dp),
                    attributeValues = NumericScalarIterable ty (componentDatatype dp)
                      (attributeData dp) (attributeByteOffset dp) (POINTS_LENGTH ft)\<rparr>"
      by (auto simp: map_le_def dom_def)
  qed
  have only: "\<forall>name. name \<noteq> ''POSITION'' \<and> name \<noteq> ''NORMAL'' \<and> name \<noteq> ''COLOR_0'' \<and>
            name \<noteq> ''_FEATURE_ID_0'' \<and> attributes pc name \<noteq> None \<longrightarrow>
            name \<in> set (obtainDracoPropertyNames bt) \<and> r name \<noteq> None \<and>
            (\<exists>off c ty. bt_properties bt name = Some (BinaryBodyReference off c ty))"
  proof (intro allI impI)
    fix name
    assume h: "name \<noteq> ''POSITION'' \<and> name \<noteq> ''NORMAL'' \<and> name \<noteq> ''COLOR_0'' \<and>
            name \<noteq> ''_FEATURE_ID_0'' \<and> attributes pc name \<noteq> None"
    with o have p1: "attributes pc1 name \<noteq> None" by metis
    from h have "attributes pc5 name = None"
      using assignDracoBatchIds_Inr(2) [OF a, of name] by (simp add: dracoSlots_other)
    from assignDracoProperties_added [OF b this p1]
    show "name \<in> set (obtainDracoPropertyNames bt) \<and> r name \<noteq> None \<and>
            (\<exists>off c ty. bt_properties bt name = Some (BinaryBodyReference off c ty))" .
  qed
  from listed only show ?thesis by blast
qed

text \<open>
  The claim as stated fails on the example tile: the Draco result has \<open>classification\<close>,
  which the batch table lists with an inline JSON value, and \<open>elevation\<close>, which only the
  feature table lists; neither becomes an attribute. The component type of \<open>intensity\<close> is
  that of the Draco result (UNSIGNED_SHORT), not the one declared in the batch table
  (UNSIGNED_BYTE).
\<close>

theorem create_draco_generic_attributes_counterexample:
  "\<not> isl (create exampleDracoExternals exampleDracoFeatureTable [] exampleDracoBatchTable)
   \<and> exampleDracoResult ''classification'' \<noteq> None
   \<and> exampleDracoResult ''elevation'' \<noteq> None
   \<and> attributes (projr (create exampleDracoExternals exampleDracoFeatureTable []
        exampleDracoBatchTable)) ''classification'' = None
   \<and> attributes (projr (create exampleDracoExternals exampleDracoFeatureTable []
        exampleDracoBatchTable)) ''elevation'' = None
   \<and> bt_properties exampleDracoBatchTable ''intensity''
       = Some (BinaryBodyReference 0 UNSIGNED_BYTE SCALAR)
   \<and> attributes (projr (create exampleDracoExternals exampleDracoFeatureTable []
        exampleDracoBatchTable)) ''intensity''
       = Some \<lparr>attributeType = ''SCALAR'', attributeComponentType = ''UINT16'',
               attributeValues = NumericScalarIterable SCALAR UNSIGNED_SHORT [4] 0 2\<rparr>"
  by (simp add: create_defs example_draco_defs)

text \<open>On the example tile, \<open>intensity\<close> is the one generic attribute.\<close>

theorem create_draco_generic_attributes_witness:
  "(case create exampleDracoExternals exampleDracoFeatureTable [] exampleDracoBatchTable of
      Inl e \<Rightarrow> False
    | Inr pc \<Rightarrow>
        attributes pc ''intensity'' =
          Some \<lparr>attributeType = ''SCALAR'', attributeComponentType = ''UINT16'',
                attributeValues = NumericScalarIterable SCALAR UNSIGNED_SHORT [4] 0 2\<rparr>
        \<and> attributes pc ''classification'' = None \<and> attributes pc ''elevation'' = None)"
proof -
  from exampleDraco_create_succeeds obtain pc where
    c: "create exampleDracoExternals exampleDracoFeatureTable [] exampleDracoBatchTable = Inr pc"
    ..
  have ft: "exampleDracoFeatureTable\<lparr>POSITION := None, POSITION_QUANTIZED := None\<rparr>
      = exampleDracoFeatureTable"
    by (simp add: exampleDracoFeatureTable_def emptyFeatureTable_def)
  have d: "obtainDracoDecodedAttributes exampleDracoExternals exampleDracoFeatureTable []
     exampleDracoBatchTable = Inr (Some exampleDracoResult)"
    using exampleDraco_obtain [of None None] by (simp only: ft)
  note inst = create_draco_generic_attributes [OF c d]
  have names: "obtainDracoPropertyNames exampleDracoBatchTable
      = [''intensity'', ''classification'']"
    by (simp add: obtainDracoPropertyNames_def obtainDracoProperties_def
        exampleDracoBatchTable_def)
  have 1: "attributes pc ''intensity'' =
          Some \<lparr>attributeType = ''SCALAR'', attributeComponentType = ''UINT16'',
                attributeValues = NumericScalarIterable SCALAR UNSIGNED_SHORT [4] 0 2\<rparr>"
    using inst [THEN conjunct1, rule_format, of "''intensity''"
        "\<lparr>attributeData = [4], attributeByteOffset = 0, componentDatatype = UNSIGNED_SHORT\<rparr>"
        0 UNSIGNED_BYTE SCALAR] names
    by (simp add: exampleDracoResult_def exampleDracoBatchTable_def
        exampleDracoFeatureTable_def emptyFeatureTable_def)
  have 2: "attributes pc ''classification'' = None"
    using inst [THEN conjunct2, rule_format, of "''classification''"]
    by (cases "attributes pc ''classification''") (auto simp: exampleDracoBatchTable_def)
  have 3: "attributes pc ''elevation'' = None"
    using inst [THEN conjunct2, rule_format, of "''elevation''"] names
    by (cases "attributes pc ''elevation''") auto
  from c 1 2 3 show ?thesis by simp
qed

subsection \<open>Attributes are only added, but for the colours of the Draco step\<close>







end
